theory Spec2Isabelle
  imports Main
begin

section \<open>Data model (types.ts)\<close>

text \<open>
  Strings are lists of 8-bit characters. JavaScript exceptions are values of type
  \<open>error\<close>: \<open>Error m\<close> is \<^verbatim>\<open>new Error(m)\<close>, \<open>TypeError m\<close> is the
  exception the engine raises on a property access on \<^verbatim>\<open>undefined\<close> or on
  iterating a non-iterable. A function that may throw returns \<open>error + 'a\<close>.
  Optional properties are \<open>option\<close>s. The creation and update timestamps, ISO
  strings in the source, are instants counted as natural numbers.
\<close>

datatype error = Error string | TypeError string

fun message :: "error \<Rightarrow> string" where
  "message (Error m) = m"
| "message (TypeError m) = m"

datatype Role = User | Assistant | System

datatype AICategory = CHAT | IMAGE

record Message =
  msg_id :: string
  conversation_id :: string
  role :: Role
  content :: string
  image_url :: "string option"
  attachments :: "string list option"
  created_at :: nat

record Conversation =
  conv_id :: string
  user_id :: string
  title :: string
  conv_created_at :: nat
  updated_at :: nat

record AIProvider =
  prov_id :: string
  name :: string
  api_key :: "string option"
  endpoint :: "string option"
  category :: "AICategory option"
  model_name :: string
  is_active :: bool

section \<open>JavaScript string operations used by the adapter\<close>

text \<open>\<^verbatim>\<open>s.includes(sub)\<close>: \<open>sub\<close> occurs as a contiguous run inside \<open>s\<close>.\<close>

fun startsWith :: "string \<Rightarrow> string \<Rightarrow> bool" where
  "startsWith s [] = True"
| "startsWith [] (p # ps) = False"
| "startsWith (c # cs) (p # ps) = (c = p \<and> startsWith cs ps)"

fun includes_s :: "string \<Rightarrow> string \<Rightarrow> bool" where
  "includes_s [] sub = (sub = [])"
| "includes_s (c # cs) sub = (startsWith (c # cs) sub \<or> includes_s cs sub)"

text \<open>\<^verbatim>\<open>s.toLowerCase()\<close> on the ASCII letters; every other character is kept.\<close>

definition toLowerChar :: "char \<Rightarrow> char" where
  "toLowerChar c =
     (case map_of (zip ''ABCDEFGHIJKLMNOPQRSTUVWXYZ'' ''abcdefghijklmnopqrstuvwxyz'') c of
        Some l \<Rightarrow> l
      | None \<Rightarrow> c)"

definition toLowerCase :: "string \<Rightarrow> string" where
  "toLowerCase s = map toLowerChar s"

text \<open>
  \<^verbatim>\<open>const [header, data] = s.split(',')\<close>: the header is everything before the
  first comma (the whole string when there is none); the data is the segment between the
  first and the second comma, and \<^verbatim>\<open>undefined\<close> when there is no comma.
\<close>

definition splitHeader :: "string \<Rightarrow> string" where
  "splitHeader s = takeWhile (\<lambda>c. c \<noteq> CHR '','') s"

definition splitData :: "string \<Rightarrow> string option" where
  "splitData s =
     (case dropWhile (\<lambda>c. c \<noteq> CHR '','') s of
        [] \<Rightarrow> None
      | _ # rest \<Rightarrow> Some (takeWhile (\<lambda>c. c \<noteq> CHR '','') rest))"

text \<open>
  \<^verbatim>\<open>header.match(/:(.*?);/)?.[1]\<close>: the text between the leftmost colon that is
  followed by a semicolon on the same line and that semicolon. \<open>untilSemi\<close> reads
  the lazy group: it stops at the first semicolon and fails at a line terminator or at
  the end of the string, in which case the search goes on after that colon.
\<close>

fun untilSemi :: "string \<Rightarrow> string option" where
  "untilSemi [] = None"
| "untilSemi (c # cs) =
     (if c = CHR '';'' then Some []
      else if c = CHR 0x0A \<or> c = CHR 0x0D then None
      else map_option ((#) c) (untilSemi cs))"

fun matchMime :: "string \<Rightarrow> string option" where
  "matchMime [] = None"
| "matchMime (c # cs) =
     (if c = CHR '':'' then
        (case untilSemi cs of Some m \<Rightarrow> Some m | None \<Rightarrow> matchMime cs)
      else matchMime cs)"

text \<open>\<^verbatim>\<open>a || b\<close> on an optional string: \<^verbatim>\<open>undefined\<close> and the empty string are falsy.\<close>

fun truthy :: "string option \<Rightarrow> bool" where
  "truthy None = False"
| "truthy (Some s) = (s \<noteq> [])"

definition orElse :: "string option \<Rightarrow> string \<Rightarrow> string" where
  "orElse a b = (case a of Some s \<Rightarrow> if s \<noteq> [] then s else b | None \<Rightarrow> b)"

text \<open>An optional string inside a template literal: \<^verbatim>\<open>undefined\<close> prints as such.\<close>

definition interpolate :: "string option \<Rightarrow> string" where
  "interpolate a = (case a of Some s \<Rightarrow> s | None \<Rightarrow> ''undefined'')"

section \<open>The provider boundary (@google/genai)\<close>

record inline_data =
  mimeType :: "string option"
  data :: "string option"

record part =
  text_p :: "string option"
  inlineData :: "inline_data option"

record turn =
  turn_role :: string
  parts :: "part list"

record image =
  imageBytes :: "string option"

record generated_image =
  gen_image :: "image option"

record images_response =
  generatedImages :: "generated_image list option"

record response_content =
  content_parts :: "part list option"

record candidate =
  cand_content :: "response_content option"

record content_response =
  candidates :: "candidate list option"

text \<open>
  A streamed reply is a finite sequence of fragments, each optionally carrying text,
  which ends normally or with an exception raised by the transport.
\<close>

record chunk =
  chunk_text :: "string option"

record stream =
  fragments :: "chunk list"
  failure :: "error option"

text \<open>
  The client held by a \<^verbatim>\<open>GeminiAdapter\<close>. \<open>generateImages model prompt\<close> and
  \<open>generateContent model prompt\<close> are the two single-shot calls;
  \<open>sendMessageStream model history message\<close> stands for
  \<^verbatim>\<open>chats.create({model, history})\<close> followed by
  \<^verbatim>\<open>chat.sendMessageStream({message})\<close>.
\<close>

record client =
  generateImages :: "string \<Rightarrow> string \<Rightarrow> error + images_response"
  generateContent :: "string \<Rightarrow> string \<Rightarrow> error + content_response"
  sendMessageStream :: "string \<Rightarrow> turn list \<Rightarrow> part list \<Rightarrow> error + stream"

section \<open>GeminiAdapter.generateImage (services/aiAdapter.ts)\<close>

text \<open>\<^verbatim>\<open>imgResponse.generatedImages?.[0]?.image?.imageBytes\<close>\<close>

definition firstImageBytes :: "images_response \<Rightarrow> string option" where
  "firstImageBytes r =
     (case generatedImages r of
        None \<Rightarrow> None
      | Some [] \<Rightarrow> None
      | Some (g # _) \<Rightarrow> (case gen_image g of None \<Rightarrow> None | Some i \<Rightarrow> imageBytes i))"

text \<open>
  The loop over the parts: the first part whose \<^verbatim>\<open>inlineData\<close> and
  \<^verbatim>\<open>inlineData.data\<close> are both truthy is returned as a data URL.
\<close>

definition hasInlineImage :: "part \<Rightarrow> bool" where
  "hasInlineImage p = (case inlineData p of None \<Rightarrow> False | Some d \<Rightarrow> truthy (data d))"

definition inlineReference :: "inline_data \<Rightarrow> string" where
  "inlineReference d = ''data:'' @ interpolate (mimeType d) @ '';base64,'' @ interpolate (data d)"

fun findInlineImage :: "part list \<Rightarrow> string option" where
  "findInlineImage [] = None"
| "findInlineImage (p # ps) =
     (case inlineData p of
        None \<Rightarrow> findInlineImage ps
      | Some d \<Rightarrow> if truthy (data d) then Some (inlineReference d) else findInlineImage ps)"

definition declinedMessage :: "string \<Rightarrow> string" where
  "declinedMessage modelName =
     ''This model ('' @ modelName @
     '') does not support image generation. Please select 'gemini-2.5-flash-image' or an Imagen model in Admin settings.''"

definition unexpectedTextMessage :: "string \<Rightarrow> string" where
  "unexpectedTextMessage t = ''Model returned text instead of image: '' @ take 100 t @ ''...''"

definition noImageMessage :: string where
  "noImageMessage = ''No image data found in model response.''"

text \<open>The fallback on the first part's text (lines 166 to 173).\<close>

definition textFallback :: "string \<Rightarrow> part list \<Rightarrow> error + string" where
  "textFallback modelName ps =
     (case ps of
        [] \<Rightarrow> Inl (Error noImageMessage)
      | p # _ \<Rightarrow>
          (case text_p p of
             None \<Rightarrow> Inl (Error noImageMessage)
           | Some t \<Rightarrow>
               if t = [] then Inl (Error noImageMessage)
               else if includes_s (toLowerCase t) ''cannot generate images''
                 then Inl (Error (declinedMessage modelName))
               else Inl (Error (unexpectedTextMessage t))))"

text \<open>
  Parsing the general response (lines 157 to 176). \<^verbatim>\<open>candidates[0].content.parts\<close>
  is read without a guard: a candidate without content, or content without parts, raises
  a \<open>TypeError\<close>.
\<close>

definition parseContentResponse :: "string \<Rightarrow> content_response \<Rightarrow> error + string" where
  "parseContentResponse modelName response =
     (case candidates response of
        None \<Rightarrow> Inl (Error noImageMessage)
      | Some [] \<Rightarrow> Inl (Error noImageMessage)
      | Some (c # _) \<Rightarrow>
          (case cand_content c of
             None \<Rightarrow> Inl (TypeError ''Cannot read properties of undefined (reading 'parts')'')
           | Some ct \<Rightarrow>
               (case content_parts ct of
                  None \<Rightarrow> Inl (TypeError ''candidates[0].content.parts is not iterable'')
                | Some ps \<Rightarrow>
                    (case findInlineImage ps of
                       Some url \<Rightarrow> Inr url
                     | None \<Rightarrow> textFallback modelName ps))))"

text \<open>The general path: one \<^verbatim>\<open>generateContent\<close> call, then the parse.\<close>

definition generalPath :: "client \<Rightarrow> string \<Rightarrow> string \<Rightarrow> error + string" where
  "generalPath cl prompt modelName =
     (case generateContent cl modelName prompt of
        Inl e \<Rightarrow> Inl e
      | Inr response \<Rightarrow> parseContentResponse modelName response)"

text \<open>
  \<^verbatim>\<open>generateImage\<close> of services/aiAdapter.ts. With an identifier containing
  \<^verbatim>\<open>imagen\<close> the image endpoint is tried first; when it yields no bytes the
  function goes on to the general path. The outer \<^verbatim>\<open>catch\<close> logs and rethrows.
\<close>

definition generateImage :: "client \<Rightarrow> string \<Rightarrow> string \<Rightarrow> error + string" where
  "generateImage cl prompt modelName =
     (if includes_s modelName ''imagen'' then
        (case generateImages cl modelName prompt of
           Inl e \<Rightarrow> Inl e
         | Inr imgResponse \<Rightarrow>
             (case firstImageBytes imgResponse of
                Some b64 \<Rightarrow>
                  if b64 \<noteq> [] then Inr (''data:image/jpeg;base64,'' @ b64)
                  else generalPath cl prompt modelName
              | None \<Rightarrow> generalPath cl prompt modelName))
      else generalPath cl prompt modelName)"

section \<open>The second copy of the adapter kept in the repository\<close>

text \<open>
  The repository holds a second copy of the adapter whose \<^verbatim>\<open>generateImage\<close>
  differs: the marker test is case-insensitive, the image path throws when no bytes come
  back instead of going on, the content and its parts are guarded, the refusal test has a
  second phrase, and the messages differ. \<^verbatim>\<open>chatStream\<close> is the same in both.
\<close>

definition imagenNoBytesMessage :: string where
  "imagenNoBytesMessage = ''Imagen model did not return image bytes.''"

definition declinedMessage_alt :: "string \<Rightarrow> string \<Rightarrow> string" where
  "declinedMessage_alt modelName t =
     ''Model '' @ [CHR 0x27] @ modelName @ [CHR 0x27] @
     '' declined image generation. Response: '' @ t"

definition noImageMessage_alt :: string where
  "noImageMessage_alt =
     ''No image data found in model response. Please check if the selected model supports image generation.''"

definition textFallback_alt :: "string \<Rightarrow> part list \<Rightarrow> error + string" where
  "textFallback_alt modelName ps =
     (case ps of
        [] \<Rightarrow> Inl (Error noImageMessage_alt)
      | p # _ \<Rightarrow>
          (case text_p p of
             None \<Rightarrow> Inl (Error noImageMessage_alt)
           | Some t \<Rightarrow>
               if t = [] then Inl (Error noImageMessage_alt)
               else if includes_s (toLowerCase t) ''cannot generate images''
                       \<or> includes_s (toLowerCase t) ''unable to generate''
                 then Inl (Error (declinedMessage_alt modelName t))
               else Inl (Error (unexpectedTextMessage t))))"

definition parseContentResponse_alt :: "string \<Rightarrow> content_response \<Rightarrow> error + string" where
  "parseContentResponse_alt modelName response =
     (case candidates response of
        None \<Rightarrow> Inl (Error noImageMessage_alt)
      | Some [] \<Rightarrow> Inl (Error noImageMessage_alt)
      | Some (c # _) \<Rightarrow>
          (case cand_content c of
             None \<Rightarrow> Inl (Error noImageMessage_alt)
           | Some ct \<Rightarrow>
               (case content_parts ct of
                  None \<Rightarrow> Inl (Error noImageMessage_alt)
                | Some ps \<Rightarrow>
                    (case findInlineImage ps of
                       Some url \<Rightarrow> Inr url
                     | None \<Rightarrow> textFallback_alt modelName ps))))"

definition generateImage_alt :: "client \<Rightarrow> string \<Rightarrow> string \<Rightarrow> error + string" where
  "generateImage_alt cl prompt modelName =
     (if includes_s (toLowerCase modelName) ''imagen'' then
        (case generateImages cl modelName prompt of
           Inl e \<Rightarrow> Inl e
         | Inr imgResponse \<Rightarrow>
             (case firstImageBytes imgResponse of
                Some b64 \<Rightarrow>
                  if b64 \<noteq> [] then Inr (''data:image/jpeg;base64,'' @ b64)
                  else Inl (Error imagenNoBytesMessage)
              | None \<Rightarrow> Inl (Error imagenNoBytesMessage)))
      else
        (case generateContent cl modelName prompt of
           Inl e \<Rightarrow> Inl e
         | Inr response \<Rightarrow> parseContentResponse_alt modelName response))"

section \<open>Attachment encoding and request composition (services/aiAdapter.ts)\<close>

text \<open>
  What \<^verbatim>\<open>fetch(url)\<close> followed by \<^verbatim>\<open>response.blob()\<close> and
  \<^verbatim>\<open>FileReader.readAsDataURL\<close> gives: the status, the blob's type and the
  reader's result (\<^verbatim>\<open>null\<close> when reading fails). A transport error is \<open>Inl\<close>.
\<close>

record fetch_response =
  ok :: bool
  statusText :: string
  blob_type :: string
  reader_result :: "string option"

type_synonym fetch = "string \<Rightarrow> error + fetch_response"

definition dataUrlInline :: "string \<Rightarrow> inline_data" where
  "dataUrlInline att =
     \<lparr>mimeType = Some (orElse (matchMime (splitHeader att)) ''application/octet-stream''),
      data = splitData att\<rparr>"

definition urlToInlineData :: "fetch \<Rightarrow> string \<Rightarrow> inline_data option" where
  "urlToInlineData fetch url =
     (case fetch url of
        Inl e \<Rightarrow> None
      | Inr response \<Rightarrow>
          if \<not> ok response then None
          else
            (case reader_result response of
               None \<Rightarrow> None
             | Some base64 \<Rightarrow>
                 if base64 = [] \<or> \<not> includes_s base64 '','' then None
                 else Some
                   \<lparr>mimeType = Some (orElse (matchMime (splitHeader base64))
                                 (orElse (Some (blob_type response)) ''application/octet-stream'')),
                    data = splitData base64\<rparr>))"

definition textPart :: "string \<Rightarrow> part" where
  "textPart t = \<lparr>text_p = Some t, inlineData = None\<rparr>"

definition inlinePart :: "inline_data \<Rightarrow> part" where
  "inlinePart d = \<lparr>text_p = None, inlineData = Some d\<rparr>"

text \<open>One attachment of a historical message (lines 61 to 73).\<close>

definition historyInline :: "fetch \<Rightarrow> string \<Rightarrow> inline_data option" where
  "historyInline fetch att =
     (if startsWith att ''data:'' then Some (dataUrlInline att)
      else if startsWith att ''http'' then urlToInlineData fetch att
      else None)"

definition geminiRole :: "Role \<Rightarrow> string" where
  "geminiRole r = (if r = Assistant then ''model'' else ''user'')"

definition historyTurn :: "fetch \<Rightarrow> Message \<Rightarrow> turn" where
  "historyTurn fetch m =
     \<lparr>turn_role = geminiRole (role m),
      parts = textPart (content m) #
        (case attachments m of
           None \<Rightarrow> []
         | Some atts \<Rightarrow> map inlinePart (List.map_filter (historyInline fetch) atts))\<rparr>"

text \<open>One attachment of the newest message when no new attachment is passed (lines 93 to 101).\<close>

definition currentInline :: "fetch \<Rightarrow> string \<Rightarrow> inline_data option" where
  "currentInline fetch att =
     (if startsWith att ''http'' then urlToInlineData fetch att
      else if startsWith att ''data:'' then Some (dataUrlInline att)
      else None)"

definition messageContent :: "fetch \<Rightarrow> Message \<Rightarrow> string option \<Rightarrow> part list" where
  "messageContent fetch lastMessage attachment =
     textPart (content lastMessage) #
       (case attachment of
          Some a \<Rightarrow>
            if a \<noteq> [] then [inlinePart (dataUrlInline a)]
            else (case attachments lastMessage of
                    None \<Rightarrow> []
                  | Some atts \<Rightarrow> map inlinePart (List.map_filter (currentInline fetch) atts))
        | None \<Rightarrow>
            (case attachments lastMessage of
               None \<Rightarrow> []
             | Some atts \<Rightarrow> map inlinePart (List.map_filter (currentInline fetch) atts)))"

text \<open>
  Lines 56 to 103: the history is built from \<^verbatim>\<open>messages.slice(0, -1)\<close>, the
  current turn from the last message. With no message at all the read of
  \<^verbatim>\<open>lastMessage.content\<close> raises a \<open>TypeError\<close>.
\<close>

definition composeRequest ::
  "fetch \<Rightarrow> Message list \<Rightarrow> string option \<Rightarrow> error + turn list \<times> part list" where
  "composeRequest fetch messages attachment =
     (let history = map (historyTurn fetch) (butlast messages)
      in case rev messages of
           [] \<Rightarrow> Inl (TypeError ''Cannot read properties of undefined (reading 'content')'')
         | lastMessage # _ \<Rightarrow> Inr (history, messageContent fetch lastMessage attachment))"

section \<open>GeminiAdapter.chatStream\<close>

text \<open>
  The three callbacks act on a state of the caller and may themselves throw
  (\<open>Some e\<close>). A run records every callback invocation together with the caller's state
  right after it, the final state, and the exception that leaves the function, if any.
\<close>

record 's callbacks =
  onChunk :: "string \<Rightarrow> 's \<Rightarrow> error option \<times> 's"
  onComplete :: "'s \<Rightarrow> error option \<times> 's"
  onError :: "error \<Rightarrow> 's \<Rightarrow> error option \<times> 's"

datatype call = ChunkCall string | CompleteCall | ErrorCall error

record 's run =
  calls :: "(call \<times> 's) list"
  final :: 's
  thrown :: "error option"

text \<open>The \<^verbatim>\<open>for await\<close> loop over the fragments (lines 114 to 118).\<close>

fun forAwait :: "'s callbacks \<Rightarrow> chunk list \<Rightarrow> 's \<Rightarrow> 's run" where
  "forAwait cbs [] s = \<lparr>calls = [], final = s, thrown = None\<rparr>"
| "forAwait cbs (c # cs) s =
     (case chunk_text c of
        None \<Rightarrow> forAwait cbs cs s
      | Some t \<Rightarrow>
          if t = [] then forAwait cbs cs s
          else
            (case onChunk cbs t s of
               (Some e, s') \<Rightarrow> \<lparr>calls = [(ChunkCall t, s')], final = s', thrown = Some e\<rparr>
             | (None, s') \<Rightarrow>
                 (let r = forAwait cbs cs s'
                  in r\<lparr>calls := (ChunkCall t, s') # calls r\<rparr>)))"

text \<open>
  Lines 105 to 120: what the \<^verbatim>\<open>try\<close> block does with the answer of the
  provider to the composed request. \<open>thrown\<close> is what reaches the \<^verbatim>\<open>catch\<close>.
\<close>

definition consumeStream :: "'s callbacks \<Rightarrow> error + stream \<Rightarrow> 's \<Rightarrow> 's run" where
  "consumeStream cbs answer s =
     (case answer of
        Inl e \<Rightarrow> \<lparr>calls = [], final = s, thrown = Some e\<rparr>
      | Inr result \<Rightarrow>
          (let r = forAwait cbs (fragments result) s
           in case thrown r of
                Some e \<Rightarrow> r
              | None \<Rightarrow>
                  (case failure result of
                     Some e \<Rightarrow> r\<lparr>thrown := Some e\<rparr>
                   | None \<Rightarrow>
                       (case onComplete cbs (final r) of
                          (t, s') \<Rightarrow>
                            \<lparr>calls = calls r @ [(CompleteCall, s')], final = s',
                             thrown = t\<rparr>))))"

definition tryBlock ::
  "fetch \<Rightarrow> client \<Rightarrow> Message list \<Rightarrow> string \<Rightarrow> 's callbacks \<Rightarrow> string option \<Rightarrow> 's \<Rightarrow> 's run" where
  "tryBlock fetch cl messages modelName cbs attachment s =
     (case composeRequest fetch messages attachment of
        Inl e \<Rightarrow> \<lparr>calls = [], final = s, thrown = Some e\<rparr>
      | Inr (history, msgContent) \<Rightarrow>
          consumeStream cbs (sendMessageStream cl modelName history msgContent) s)"

text \<open>Lines 122 to 125: the \<^verbatim>\<open>catch\<close> block hands the exception to \<^verbatim>\<open>onError\<close>.\<close>

definition catchBlock :: "'s callbacks \<Rightarrow> 's run \<Rightarrow> 's run" where
  "catchBlock cbs r =
     (case thrown r of
        None \<Rightarrow> r
      | Some e \<Rightarrow>
          (case onError cbs e (final r) of
             (t, s') \<Rightarrow> \<lparr>calls = calls r @ [(ErrorCall e, s')], final = s', thrown = t\<rparr>))"

definition chatStream ::
  "fetch \<Rightarrow> client \<Rightarrow> Message list \<Rightarrow> string \<Rightarrow> 's callbacks \<Rightarrow> string option \<Rightarrow> 's \<Rightarrow> 's run" where
  "chatStream fetch cl messages modelName cbs attachment s =
     catchBlock cbs (tryBlock fetch cl messages modelName cbs attachment s)"

text \<open>The terminal callbacks among the invocations of a run.\<close>

fun isTerminal :: "call \<Rightarrow> bool" where
  "isTerminal (ChunkCall t) = False"
| "isTerminal CompleteCall = True"
| "isTerminal (ErrorCall e) = True"

definition invoked :: "'s run \<Rightarrow> call list" where
  "invoked r = map fst (calls r)"

definition terminalCalls :: "'s run \<Rightarrow> call list" where
  "terminalCalls r = filter isTerminal (invoked r)"

text \<open>
  The stream is exhausted without error: the request is composed, the provider answers
  with a stream, no chunk callback throws while the fragments are delivered, and the
  stream does not end with a failure.
\<close>

definition streamSucceeds ::
  "fetch \<Rightarrow> client \<Rightarrow> Message list \<Rightarrow> string \<Rightarrow> 's callbacks \<Rightarrow> string option \<Rightarrow> 's \<Rightarrow> bool" where
  "streamSucceeds fetch cl messages modelName cbs attachment s =
     (case composeRequest fetch messages attachment of
        Inl e \<Rightarrow> False
      | Inr (history, msgContent) \<Rightarrow>
          (case sendMessageStream cl modelName history msgContent of
             Inl e \<Rightarrow> False
           | Inr result \<Rightarrow>
               failure result = None \<and> thrown (forAwait cbs (fragments result) s) = None))"

section \<open>The persisted store behind chatService (services/chatService.ts)\<close>

text \<open>
  The tables behind the Supabase client, as far as \<^verbatim>\<open>chatService\<close> uses them.
  Rows are kept in insertion order. Every request to the store is numbered
  (\<open>db_ops\<close>); \<open>db_faults n\<close> is the error the \<open>n\<close>-th request comes back with, if
  any. The store gives each new row its identifier (\<open>db_uuid\<close>) and its creation
  instant (\<open>db_clock\<close>, which advances with every row); instants stand for the
  ISO timestamps of the source and are compared as those are.
\<close>

record db =
  db_messages :: "Message list"
  db_conversations :: "Conversation list"
  db_ops :: nat
  db_clock :: nat
  db_uuid :: "nat \<Rightarrow> string"
  db_faults :: "nat \<Rightarrow> error option"

record message_input =
  in_conversation_id :: string
  in_role :: Role
  in_content :: string
  in_image_url :: "string option"
  in_attachments :: "string list option"

definition touchConversation :: "string \<Rightarrow> nat \<Rightarrow> Conversation list \<Rightarrow> Conversation list" where
  "touchConversation cid now cs = map (\<lambda>c. if conv_id c = cid then c\<lparr>updated_at := now\<rparr> else c) cs"

text \<open>
  \<^verbatim>\<open>addMessage\<close>: the insert throws its error; otherwise the conversation's
  timestamp is bumped by a second request whose error is not looked at, and the new row
  is returned.
\<close>

definition addMessage :: "message_input \<Rightarrow> db \<Rightarrow> (error + Message) \<times> db" where
  "addMessage msg d =
     (case db_faults d (db_ops d) of
        Some e \<Rightarrow> (Inl e, d\<lparr>db_ops := db_ops d + 1\<rparr>)
      | None \<Rightarrow>
          (let row = \<lparr>msg_id = db_uuid d (db_ops d),
                      conversation_id = in_conversation_id msg,
                      role = in_role msg,
                      content = in_content msg,
                      image_url = in_image_url msg,
                      attachments = in_attachments msg,
                      created_at = db_clock d\<rparr>;
               touched = (case db_faults d (db_ops d + 1) of
                            Some e \<Rightarrow> db_conversations d
                          | None \<Rightarrow> touchConversation (in_conversation_id msg) (db_clock d + 1)
                                      (db_conversations d))
           in (Inr row,
               d\<lparr>db_messages := db_messages d @ [row],
                 db_conversations := touched,
                 db_ops := db_ops d + 2,
                 db_clock := db_clock d + 2\<rparr>)))"

text \<open>\<^verbatim>\<open>getMessages\<close>: the rows of the conversation, by creation instant ascending.\<close>

definition getMessages :: "string \<Rightarrow> db \<Rightarrow> (error + Message list) \<times> db" where
  "getMessages conversationId d =
     (case db_faults d (db_ops d) of
        Some e \<Rightarrow> (Inl e, d\<lparr>db_ops := db_ops d + 1\<rparr>)
      | None \<Rightarrow>
          (Inr (sort_key created_at
                  (filter (\<lambda>m. conversation_id m = conversationId) (db_messages d))),
           d\<lparr>db_ops := db_ops d + 1\<rparr>))"

definition createConversation :: "string \<Rightarrow> string \<Rightarrow> db \<Rightarrow> (error + Conversation) \<times> db" where
  "createConversation userId ttl d =
     (case db_faults d (db_ops d) of
        Some e \<Rightarrow> (Inl e, d\<lparr>db_ops := db_ops d + 1\<rparr>)
      | None \<Rightarrow>
          (let row = \<lparr>conv_id = db_uuid d (db_ops d),
                      user_id = userId,
                      title = ttl,
                      conv_created_at = db_clock d,
                      updated_at = db_clock d\<rparr>
           in (Inr row,
               d\<lparr>db_conversations := db_conversations d @ [row],
                 db_ops := db_ops d + 1,
                 db_clock := db_clock d + 1\<rparr>)))"

section \<open>The send orchestrator (App.tsx, handleSendMessage)\<close>

text \<open>
  The component's state, the store, and the text buffer \<^verbatim>\<open>streamContent\<close> of the
  send in progress. One send is followed from its start to its last state update with
  no other event of the page in between.

  React does not apply an updater function when \<^verbatim>\<open>setMessages\<close> is called but when
  it next renders, and the updaters of the chat callbacks read the variable
  \<^verbatim>\<open>streamContent\<close> at that moment. An \<open>updater\<close> therefore takes the value the
  buffer has when it is applied, and the previous transcript. \<open>pending\<close> holds the
  updaters handed over and not yet applied, in order; \<open>messages\<close> is the transcript
  as last rendered. When React renders between two callbacks is not in the hands of the
  code: \<open>rendersBetween\<close> says, for each chunk or error callback of the send in order,
  whether React has rendered since the callback before it (fragments delivered within one
  tick come with \<open>False\<close>). \<open>screens\<close> lists the transcripts these renders have
  shown.
\<close>

type_synonym updater = "string \<Rightarrow> Message list \<Rightarrow> Message list"

record world =
  session_user :: "string option"
  conversations :: "Conversation list"
  currentConversationId :: "string option"
  messages :: "Message list"
  isLoading :: bool
  providers :: "AIProvider list"
  alerts :: "string list"
  store :: db
  streamContent :: string
  pending :: "updater list"
  rendersBetween :: "bool list"
  screens :: "Message list list"

text \<open>
  What the send takes from outside the component: the page's \<^verbatim>\<open>fetch\<close>, the
  constructor of the provider client from a key and an optional endpoint, the configured
  \<^verbatim>\<open>API_KEY\<close>, the blob storage (from a path to its public URL, or an error), the
  printed value of \<^verbatim>\<open>Math.random()\<close>, the identifier drawn by
  \<^verbatim>\<open>crypto.randomUUID()\<close> and the current instant.
\<close>

record env =
  env_fetch :: fetch
  GoogleGenAI :: "string \<Rightarrow> string option \<Rightarrow> client"
  API_KEY :: "string option"
  storage_upload :: "string \<Rightarrow> error + string"
  random :: string
  randomUUID :: string
  now :: nat

record File =
  file_name :: string

text \<open>The constructor of \<^verbatim>\<open>GeminiAdapter\<close> and the default adapter.\<close>

definition GeminiAdapter :: "env \<Rightarrow> string \<Rightarrow> string option \<Rightarrow> client" where
  "GeminiAdapter ev apiKey baseUrl =
     GoogleGenAI ev (orElse (Some apiKey) ''MISSING_API_KEY'')
       (if truthy baseUrl then baseUrl else None)"

definition getGeminiAdapter :: "env \<Rightarrow> client" where
  "getGeminiAdapter ev = GeminiAdapter ev (orElse (API_KEY ev) []) None"

definition selectAdapter :: "env \<Rightarrow> AIProvider \<Rightarrow> client" where
  "selectAdapter ev selectedProvider =
     (if truthy (api_key selectedProvider) \<or> truthy (endpoint selectedProvider)
      then GeminiAdapter ev
             (orElse (api_key selectedProvider) (orElse (API_KEY ev) []))
             (endpoint selectedProvider)
      else getGeminiAdapter ev)"

text \<open>
  \<^verbatim>\<open>loadMessages\<close>: a failed read is logged and leaves the transcript as it is.
\<close>

definition loadMessages :: "string \<Rightarrow> world \<Rightarrow> world" where
  "loadMessages cid w =
     (case getMessages cid (store w) of
        (Inl e, d) \<Rightarrow> w\<lparr>store := d\<rparr>
      | (Inr msgs, d) \<Rightarrow> w\<lparr>store := d, messages := msgs\<rparr>)"

text \<open>Step 1 (lines 211 to 231): the upload, with the local preview as the fallback.\<close>

definition fileExt :: "string \<Rightarrow> string" where
  "fileExt n = rev (takeWhile (\<lambda>c. c \<noteq> CHR ''.'') (rev n))"

definition uploadAttachment :: "env \<Rightarrow> string \<Rightarrow> File option \<Rightarrow> string option \<Rightarrow> string option" where
  "uploadAttachment ev userId attachmentFile attachmentPreview =
     (case attachmentFile of
        None \<Rightarrow> None
      | Some f \<Rightarrow>
          (case storage_upload ev (userId @ ''/'' @ random ev @ ''.'' @ fileExt (file_name f)) of
             Inr publicUrl \<Rightarrow> Some publicUrl
           | Inl uploadError \<Rightarrow> attachmentPreview))"

text \<open>
  The conversation of the send (lines 201 to 209): the selected one, or a new one titled
  with the first thirty characters of the text.
\<close>

definition ensureConversation :: "string \<Rightarrow> string \<Rightarrow> world \<Rightarrow> (error + string) \<times> world" where
  "ensureConversation userId txt w =
     (let create =
            (case createConversation userId (take 30 txt) (store w) of
               (Inl e, d) \<Rightarrow> (Inl e, w\<lparr>store := d\<rparr>)
             | (Inr newConv, d) \<Rightarrow>
                 (Inr (conv_id newConv),
                  w\<lparr>store := d,
                    conversations := newConv # conversations w,
                    currentConversationId := Some (conv_id newConv)\<rparr>))
      in case currentConversationId w of
           None \<Rightarrow> create
         | Some convId \<Rightarrow> if convId = [] then create else (Inr convId, w))"

text \<open>Step 2 (lines 233 to 242): the user's message is persisted and shown.\<close>

definition addUserMessage ::
  "string \<Rightarrow> string \<Rightarrow> string option \<Rightarrow> world \<Rightarrow> (error + Message) \<times> world" where
  "addUserMessage convId txt uploadedUrl w =
     (case addMessage
             \<lparr>in_conversation_id = convId, in_role = User, in_content = txt,
              in_image_url = None,
              in_attachments =
                (case uploadedUrl of
                   None \<Rightarrow> None
                 | Some u \<Rightarrow> if u = [] then None else Some [u])\<rparr>
             (store w) of
        (Inl e, d) \<Rightarrow> (Inl e, w\<lparr>store := d\<rparr>)
      | (Inr userMsg, d) \<Rightarrow>
          (Inr userMsg, w\<lparr>store := d, messages := messages w @ [userMsg], isLoading := True\<rparr>))"

text \<open>
  Image mode (lines 257 to 286). \<open>imageDispatch\<close> is what runs before the request to
  the model is awaited, \<open>imageResolve\<close> what runs once it has returned an image,
  \<open>imageFailure\<close> the \<^verbatim>\<open>catch\<close> block; the \<^verbatim>\<open>finally\<close> block clears the
  loading flag on every path.
\<close>

definition imageDispatch :: "string \<Rightarrow> world \<Rightarrow> (error + Message) \<times> world" where
  "imageDispatch convId w =
     (case addMessage
             \<lparr>in_conversation_id = convId, in_role = Assistant,
              in_content = ''Generating image...'',
              in_image_url = None, in_attachments = None\<rparr>
             (store w) of
        (Inl e, d) \<Rightarrow> (Inl e, w\<lparr>store := d\<rparr>)
      | (Inr placeholderMsg, d) \<Rightarrow>
          (Inr placeholderMsg, w\<lparr>store := d, messages := messages w @ [placeholderMsg]\<rparr>))"

definition imageResolve ::
  "string \<Rightarrow> string \<Rightarrow> Message \<Rightarrow> string \<Rightarrow> world \<Rightarrow> (error + Message) \<times> world" where
  "imageResolve convId txt placeholderMsg imageUrl w =
     (case addMessage
             \<lparr>in_conversation_id = convId, in_role = Assistant,
              in_content = ''Here is your image for: '' @ [CHR 0x22] @ txt @ [CHR 0x22],
              in_image_url = Some imageUrl, in_attachments = None\<rparr>
             (store w) of
        (Inl e, d) \<Rightarrow> (Inl e, w\<lparr>store := d\<rparr>)
      | (Inr imgMsg, d) \<Rightarrow>
          (Inr imgMsg,
           w\<lparr>store := d,
             messages := map (\<lambda>m. if msg_id m = msg_id placeholderMsg then imgMsg else m)
                           (messages w)\<rparr>))"

definition imageFailure :: "string \<Rightarrow> error \<Rightarrow> world \<Rightarrow> error option \<times> world" where
  "imageFailure convId err w =
     (case addMessage
             \<lparr>in_conversation_id = convId, in_role = Assistant,
              in_content = ''Failed to generate image. Error: '' @ message err,
              in_image_url = None, in_attachments = None\<rparr>
             (store w) of
        (Inl e, d) \<Rightarrow> (Some e, w\<lparr>store := d\<rparr>)
      | (Inr failMsg, d) \<Rightarrow> (None, loadMessages convId (w\<lparr>store := d\<rparr>)))"

definition imageBranch ::
  "client \<Rightarrow> string \<Rightarrow> string \<Rightarrow> string \<Rightarrow> world \<Rightarrow> error option \<times> world" where
  "imageBranch adapter convId txt modelName w =
     (case (case imageDispatch convId w of
              (Inl e, w1) \<Rightarrow> imageFailure convId e w1
            | (Inr placeholderMsg, w1) \<Rightarrow>
                (case generateImage adapter txt modelName of
                   Inl e \<Rightarrow> imageFailure convId e w1
                 | Inr imageUrl \<Rightarrow>
                     (case imageResolve convId txt placeholderMsg imageUrl w1 of
                        (Inl e, w2) \<Rightarrow> imageFailure convId e w2
                      | (Inr imgMsg, w2) \<Rightarrow> (None, w2)))) of
        (t, w') \<Rightarrow> (t, w'\<lparr>isLoading := False\<rparr>))"

text \<open>
  The queue of updaters. \<open>setMessages\<close> with an updater function only queues it. A
  render applies the queued updaters in order, each to the value \<^verbatim>\<open>streamContent\<close>
  has then, and shows the result; with nothing queued there is nothing to render.
  \<open>arrive\<close> is what has happened when a chunk or error callback starts: React has
  rendered since the callback before it, or it has not.
\<close>

definition setMessages :: "updater \<Rightarrow> world \<Rightarrow> world" where
  "setMessages u w = w\<lparr>pending := pending w @ [u]\<rparr>"

definition applyPending :: "string \<Rightarrow> updater list \<Rightarrow> Message list \<Rightarrow> Message list" where
  "applyPending buffer us prev = fold (\<lambda>u ms. u buffer ms) us prev"

definition render :: "world \<Rightarrow> world" where
  "render w =
     (if pending w = [] then w
      else
        (let shown = applyPending (streamContent w) (pending w) (messages w)
         in w\<lparr>messages := shown, pending := [], screens := screens w @ [shown]\<rparr>))"

definition arrive :: "world \<Rightarrow> world" where
  "arrive w =
     (case rendersBetween w of
        [] \<Rightarrow> render w
      | rendered # later \<Rightarrow> (if rendered then render w else w)\<lparr>rendersBetween := later\<rparr>)"

text \<open>
  What the image branch does once the model has answered, from the world in which the
  request was pending: the \<^verbatim>\<open>catch\<close> block on a failure, the second write on an
  image.
\<close>

definition imageSettle ::
  "string \<Rightarrow> string \<Rightarrow> Message \<Rightarrow> error + string \<Rightarrow> world \<Rightarrow> error option \<times> world" where
  "imageSettle convId txt placeholderMsg answer w1 =
     (case answer of
        Inl e \<Rightarrow> imageFailure convId e w1
      | Inr imageUrl \<Rightarrow>
          (case imageResolve convId txt placeholderMsg imageUrl w1 of
             (Inl e, w2) \<Rightarrow> imageFailure convId e w2
           | (Inr imgMsg, w2) \<Rightarrow> (None, w2)))"

text \<open>
  Chat mode (lines 288 to 331). \<open>replaceContent assistantMsgId\<close> is the updater of the
  chunk callback, \<^verbatim>\<open>prev => prev.map(m => m.id === assistantMsgId ? {...m, content:
  streamContent} : m)\<close>: every message bearing the placeholder's identifier gets the
  buffer as its content. The chunk callback extends the buffer and queues that updater.
\<close>

definition replaceContent :: "string \<Rightarrow> string \<Rightarrow> Message list \<Rightarrow> Message list" where
  "replaceContent assistantMsgId c prev =
     map (\<lambda>m. if msg_id m = assistantMsgId then m\<lparr>content := c\<rparr> else m) prev"

definition chunkHandler :: "string \<Rightarrow> string \<Rightarrow> world \<Rightarrow> error option \<times> world" where
  "chunkHandler assistantMsgId chunk w =
     (let w0 = arrive w;
          buffer = streamContent w0 @ chunk
      in (None, setMessages (replaceContent assistantMsgId) (w0\<lparr>streamContent := buffer\<rparr>)))"

text \<open>
  The completion callback is an \<^verbatim>\<open>async\<close> function: a failed write rejects a
  promise nobody awaits, so nothing is thrown into the adapter and the rest of the
  callback does not run. The write is sent with the buffer as it is when the callback is
  called; while its answer is awaited React renders what is queued.
\<close>

definition completeHandler :: "string \<Rightarrow> world \<Rightarrow> error option \<times> world" where
  "completeHandler convId w =
     (case addMessage
             \<lparr>in_conversation_id = convId, in_role = Assistant,
              in_content = streamContent w,
              in_image_url = None, in_attachments = None\<rparr>
             (store w) of
        (Inl e, d) \<Rightarrow> (None, render (w\<lparr>store := d\<rparr>))
      | (Inr saved, d) \<Rightarrow>
          (None, (loadMessages convId (render (w\<lparr>store := d\<rparr>)))\<lparr>isLoading := False\<rparr>))"

text \<open>
  The error callback queues an updater that writes the buffer followed by the error
  note; it is the last update of the send, and React renders it once the callback has
  returned.
\<close>

definition errorUpdater :: "string \<Rightarrow> error \<Rightarrow> updater" where
  "errorUpdater assistantMsgId err buffer prev =
     replaceContent assistantMsgId
       (buffer @ ''\<newline>\<newline>[Error: '' @
          orElse (Some (message err)) ''Check configuration'' @ '']'')
       prev"

definition errorHandler :: "string \<Rightarrow> error \<Rightarrow> world \<Rightarrow> error option \<times> world" where
  "errorHandler assistantMsgId err w =
     (None,
      render (setMessages (errorUpdater assistantMsgId err) ((arrive w)\<lparr>isLoading := False\<rparr>)))"

definition chatCallbacks :: "string \<Rightarrow> string \<Rightarrow> world callbacks" where
  "chatCallbacks assistantMsgId convId =
     \<lparr>onChunk = chunkHandler assistantMsgId,
      onComplete = completeHandler convId,
      onError = errorHandler assistantMsgId\<rparr>"

text \<open>
  \<open>closureMessages\<close> is the transcript the handler closed over when the send began:
  the context sent to the model is that transcript followed by the user's message.
\<close>

definition chatBranch ::
  "env \<Rightarrow> client \<Rightarrow> string \<Rightarrow> string \<Rightarrow> Message \<Rightarrow> string option \<Rightarrow> Message list \<Rightarrow> world
     \<Rightarrow> world run" where
  "chatBranch ev adapter convId modelName userMsg attachmentPreview closureMessages w =
     (let assistantMsgId = randomUUID ev;
          optimisticMsg =
            \<lparr>msg_id = assistantMsgId, conversation_id = convId, role = Assistant,
             content = [], image_url = None, attachments = None, created_at = now ev\<rparr>;
          w1 = w\<lparr>streamContent := [], messages := messages w @ [optimisticMsg]\<rparr>;
          contextMessages = closureMessages @ [userMsg]
      in chatStream (env_fetch ev) adapter contextMessages modelName
           (chatCallbacks assistantMsgId convId) attachmentPreview w1)"

definition noProviderAlert :: string where
  "noProviderAlert =
     ''Please select a valid AI Model from the list, or configure one in the Admin panel.''"

text \<open>
  Step 3 (lines 244 to 332): the model and the mode come from the selected provider, and
  the send goes to the image branch or to the chat branch.
\<close>

definition dispatch ::
  "env \<Rightarrow> AIProvider \<Rightarrow> string \<Rightarrow> string \<Rightarrow> Message \<Rightarrow> string option \<Rightarrow> Message list \<Rightarrow> world
     \<Rightarrow> error option \<times> world" where
  "dispatch ev selectedProvider convId txt userMsg attachmentPreview closureMessages w =
     (let modelName = orElse (Some (model_name selectedProvider)) ''gemini-2.5-flash'';
          mode = (case category selectedProvider of None \<Rightarrow> CHAT | Some c \<Rightarrow> c);
          adapter = selectAdapter ev selectedProvider
      in if mode = IMAGE
         then imageBranch adapter convId txt modelName w
         else
           (let r = chatBranch ev adapter convId modelName userMsg attachmentPreview
                      closureMessages w
            in (thrown r, final r)))"

text \<open>
  The whole handler. The result's first component is the exception that leaves the
  handler, if any.
\<close>

definition handleSendMessage ::
  "env \<Rightarrow> string \<Rightarrow> string \<Rightarrow> File option \<Rightarrow> string option \<Rightarrow> world \<Rightarrow> error option \<times> world" where
  "handleSendMessage ev txt providerId attachmentFile attachmentPreview w =
     (case session_user w of
        None \<Rightarrow> (None, w)
      | Some userId \<Rightarrow>
          (case find (\<lambda>p. prov_id p = providerId) (providers w) of
             None \<Rightarrow> (None, w\<lparr>alerts := alerts w @ [noProviderAlert]\<rparr>)
           | Some selectedProvider \<Rightarrow>
               (case ensureConversation userId txt w of
                  (Inl e, w1) \<Rightarrow> (Some e, w1)
                | (Inr convId, w1) \<Rightarrow>
                    (case addUserMessage convId txt
                            (uploadAttachment ev userId attachmentFile attachmentPreview) w1 of
                       (Inl e, w2) \<Rightarrow> (Some e, w2)
                     | (Inr userMsg, w2) \<Rightarrow>
                         dispatch ev selectedProvider convId txt userMsg attachmentPreview
                           (messages w) w2))))"

text \<open>
  What a reader of a transcript sees of the placeholder: the content of the newest
  message bearing its identifier; and the sequence of these over the transcripts React
  has shown.
\<close>

definition placeholderContent :: "string \<Rightarrow> Message list \<Rightarrow> string option" where
  "placeholderContent assistantMsgId msgs =
     map_option content (find (\<lambda>m. msg_id m = assistantMsgId) (rev msgs))"

definition observed :: "string \<Rightarrow> world \<Rightarrow> string option list" where
  "observed assistantMsgId w = map (placeholderContent assistantMsgId) (screens w)"

text \<open>A message is persisted when the store holds its row.\<close>

definition persisted :: "Message \<Rightarrow> world \<Rightarrow> bool" where
  "persisted m w = (m \<in> set (db_messages (store w)))"

definition persistedSummary :: "world \<Rightarrow> (Role \<times> string \<times> string option) list" where
  "persistedSummary w = map (\<lambda>m. (role m, content m, image_url m)) (db_messages (store w))"

section \<open>Concrete inputs used by the examples\<close>

text \<open>
  A scripted client gives the same answer to every call of each kind; the callbacks
  \<open>throwingComplete\<close> keep no state and differ from silent ones only in that
  \<^verbatim>\<open>onComplete\<close> throws.
\<close>

definition scriptedClient ::
  "(error + images_response) \<Rightarrow> (error + content_response) \<Rightarrow> (error + stream) \<Rightarrow> client" where
  "scriptedClient imgs resp strm =
     \<lparr>generateImages = (\<lambda>m p. imgs),
      generateContent = (\<lambda>m p. resp),
      sendMessageStream = (\<lambda>m h c. strm)\<rparr>"

definition noImages :: "error + images_response" where
  "noImages = Inr \<lparr>generatedImages = None\<rparr>"

definition noCandidates :: "error + content_response" where
  "noCandidates = Inr \<lparr>candidates = None\<rparr>"

definition emptyStream :: "error + stream" where
  "emptyStream = Inr \<lparr>fragments = [], failure = None\<rparr>"

definition hiStream :: "error + stream" where
  "hiStream =
     Inr \<lparr>fragments = [\<lparr>chunk_text = Some ''Hi''\<rparr>, \<lparr>chunk_text = Some '' there''\<rparr>,
                        \<lparr>chunk_text = Some ''!''\<rparr>],
          failure = None\<rparr>"

definition partsResponse :: "part list \<Rightarrow> error + content_response" where
  "partsResponse ps =
     Inr \<lparr>candidates = Some [\<lparr>cand_content = Some \<lparr>content_parts = Some ps\<rparr>\<rparr>]\<rparr>"

definition pngPart :: part where
  "pngPart = \<lparr>text_p = None, inlineData = Some \<lparr>mimeType = Some ''image/png'', data = Some ''AAAA''\<rparr>\<rparr>"

definition silentClient :: client where
  "silentClient = scriptedClient noImages noCandidates emptyStream"

definition hiClient :: client where
  "hiClient = scriptedClient noImages noCandidates hiStream"

definition imageClient :: client where
  "imageClient =
     scriptedClient noImages
       (partsResponse [\<lparr>text_p = Some ''Here is your cat'', inlineData = None\<rparr>, pngPart])
       emptyStream"

definition refusingClient :: client where
  "refusingClient =
     scriptedClient noImages
       (partsResponse [\<lparr>text_p = Some ''I cannot generate images'', inlineData = None\<rparr>])
       emptyStream"

definition offline :: fetch where
  "offline url = Inl (Error ''Failed to fetch'')"

definition throwingComplete :: "unit callbacks" where
  "throwingComplete =
     \<lparr>onChunk = (\<lambda>t s. (None, s)),
      onComplete = (\<lambda>s. (Some (Error ''boom''), s)),
      onError = (\<lambda>e s. (None, s))\<rparr>"

definition helloMsg :: Message where
  "helloMsg =
     \<lparr>msg_id = ''m1'', conversation_id = ''c1'', role = User, content = ''Hello'',
      image_url = None, attachments = None, created_at = 1\<rparr>"

definition answerMsg :: Message where
  "answerMsg =
     \<lparr>msg_id = ''m2'', conversation_id = ''c1'', role = Assistant, content = ''Hi, how can I help?'',
      image_url = None, attachments = None, created_at = 2\<rparr>"

definition noteMsg :: Message where
  "noteMsg =
     \<lparr>msg_id = ''m3'', conversation_id = ''c1'', role = System, content = ''Be brief.'',
      image_url = None, attachments = None, created_at = 3\<rparr>"

definition questionMsg :: Message where
  "questionMsg =
     \<lparr>msg_id = ''m4'', conversation_id = ''c1'', role = User, content = ''Draw a cat'',
      image_url = None, attachments = None, created_at = 4\<rparr>"

definition exampleStore :: db where
  "exampleStore =
     \<lparr>db_messages = [],
      db_conversations =
        [\<lparr>conv_id = ''c1'', user_id = ''alice'', title = ''Cats'', conv_created_at = 0,
          updated_at = 0\<rparr>],
      db_ops = 0,
      db_clock = 1,
      db_uuid = (\<lambda>n. ''row-'' @ replicate n (CHR ''i'')),
      db_faults = (\<lambda>n. None)\<rparr>"

definition exampleProvider :: "AICategory \<Rightarrow> AIProvider" where
  "exampleProvider cat =
     \<lparr>prov_id = ''p1'', name = ''Gemini'', api_key = None, endpoint = None,
      category = Some cat, model_name = ''gemini-2.5-flash-image'', is_active = True\<rparr>"

definition exampleWorld :: "AICategory \<Rightarrow> world" where
  "exampleWorld cat =
     \<lparr>session_user = Some ''alice'',
      conversations =
        [\<lparr>conv_id = ''c1'', user_id = ''alice'', title = ''Cats'', conv_created_at = 0,
          updated_at = 0\<rparr>],
      currentConversationId = Some ''c1'',
      messages = [],
      isLoading = False,
      providers = [exampleProvider cat],
      alerts = [],
      store = exampleStore,
      streamContent = [],
      pending = [],
      rendersBetween = [True, True, True],
      screens = []\<rparr>"

text \<open>The same world when the three fragments of a reply are delivered within one tick.\<close>

definition batchedWorld :: world where
  "batchedWorld = (exampleWorld CHAT)\<lparr>rendersBetween := [False, False, False]\<rparr>"

definition storageDown :: "string \<Rightarrow> error + string" where
  "storageDown path = Inl (Error ''Bucket not found'')"

definition exampleEnv :: "client \<Rightarrow> env" where
  "exampleEnv cl =
     \<lparr>env_fetch = offline,
      GoogleGenAI = (\<lambda>k b. cl),
      API_KEY = None,
      storage_upload = storageDown,
      random = ''0.42'',
      randomUUID = ''local-1'',
      now = 9\<rparr>"

definition catFile :: File where
  "catFile = \<lparr>file_name = ''cat.png''\<rparr>"

definition catPreview :: string where
  "catPreview = ''data:image/png;base64,AAAA''"

section \<open>Facts about the string operations\<close>

lemma startsWith_append: "startsWith (p @ s) p"
  by (induction p) simp_all

lemma includes_s_startsWith: "startsWith s sub \<Longrightarrow> includes_s s sub"
  by (cases s; cases sub) simp_all

lemma includes_s_prepend: "includes_s s sub \<Longrightarrow> includes_s (p @ s) sub"
  by (induction p) simp_all

lemma includes_s_middle: "includes_s (p @ m @ s) m"
  by (rule includes_s_prepend, rule includes_s_startsWith, rule startsWith_append)

lemma startsWith_map: "startsWith s sub \<Longrightarrow> startsWith (map f s) (map f sub)"
  by (induction s sub rule: startsWith.induct) simp_all

lemma includes_s_map: "includes_s s sub \<Longrightarrow> includes_s (map f s) (map f sub)"
proof (induction s)
  case Nil
  then show ?case by simp
next
  case (Cons c cs)
  from Cons.prems have "startsWith (c # cs) sub \<or> includes_s cs sub" by simp
  then show ?case
  proof
    assume "startsWith (c # cs) sub"
    then have "startsWith (map f (c # cs)) (map f sub)" by (rule startsWith_map)
    then show ?thesis by simp
  next
    assume "includes_s cs sub"
    then have "includes_s (map f cs) (map f sub)" by (rule Cons.IH)
    then show ?thesis by simp
  qed
qed

lemma imagen_marker_lower:
  assumes "includes_s modelName ''imagen''"
  shows "includes_s (toLowerCase modelName) ''imagen''"
proof -
  from assms have "includes_s (map toLowerChar modelName) (map toLowerChar ''imagen'')"
    by (rule includes_s_map)
  moreover have "map toLowerChar ''imagen'' = ''imagen''"
    by (simp add: toLowerChar_def)
  ultimately show ?thesis by (simp add: toLowerCase_def)
qed

lemma refusal_text_lower:
  "toLowerCase ''I cannot generate images'' = ''i cannot generate images''"
  by (simp add: toLowerCase_def toLowerChar_def)

section \<open>generateImage: the resolution order\<close>

lemma findInlineImage_find:
  "findInlineImage ps =
     (case find hasInlineImage ps of
        None \<Rightarrow> None
      | Some q \<Rightarrow> map_option inlineReference (inlineData q))"
  by (induction ps) (auto simp: hasInlineImage_def split: option.splits)

lemma find_hasInlineImage:
  assumes "p \<in> set ps" and "hasInlineImage p"
  shows "\<exists>q d. find hasInlineImage ps = Some q \<and> inlineData q = Some d \<and> truthy (data d)"
proof -
  from assms have "find hasInlineImage ps \<noteq> None" by (auto simp: find_None_iff)
  then obtain q where q: "find hasInlineImage ps = Some q" by auto
  then have "hasInlineImage q" by (auto simp: find_Some_iff)
  then obtain d where "inlineData q = Some d" "truthy (data d)"
    by (auto simp: hasInlineImage_def split: option.splits)
  with q show ?thesis by blast
qed

lemma findInlineImage_nonempty: "findInlineImage ps = Some url \<Longrightarrow> url \<noteq> []"
  by (induction ps) (auto simp: inlineReference_def split: option.splits if_splits)

lemma generalPath_nonempty: "generalPath cl prompt modelName = Inr url \<Longrightarrow> url \<noteq> []"
  by (auto simp: generalPath_def parseContentResponse_def textFallback_def
           split: sum.splits option.splits list.splits if_splits
           dest: findInlineImage_nonempty)

text \<open>
  Claim C4. On the general path (the model identifier does not contain the marker
  \<^verbatim>\<open>imagen\<close>), when the parts of the first candidate hold a part with inline image
  data, \<open>generateImage\<close> returns the first such part as the data URL
  \<^verbatim>\<open>data:<mimeType>;base64,<data>\<close>. The result is fixed by the first part that
  carries inline data, so no text part, whether before or after it, has a say.
\<close>

theorem generateImage_image_wins:
  assumes "\<not> includes_s modelName ''imagen''"
    and "generateContent cl modelName prompt = Inr response"
    and "candidates response = Some (c # cs)"
    and "cand_content c = Some ct"
    and "content_parts ct = Some ps"
    and "p \<in> set ps" and "hasInlineImage p"
  shows "\<exists>q d. find hasInlineImage ps = Some q \<and> inlineData q = Some d \<and>
           generateImage cl prompt modelName =
             Inr (''data:'' @ interpolate (mimeType d) @ '';base64,'' @ interpolate (data d))"
proof -
  from assms(6,7) obtain q d where
    q: "find hasInlineImage ps = Some q" "inlineData q = Some d"
    using find_hasInlineImage by blast
  then have "findInlineImage ps = Some (inlineReference d)"
    by (simp add: findInlineImage_find)
  with assms(1-5) have "generateImage cl prompt modelName = Inr (inlineReference d)"
    by (simp add: generateImage_def generalPath_def parseContentResponse_def)
  with q show ?thesis by (auto simp: inlineReference_def)
qed

text \<open>
  The theorem at a response whose parts are a text part followed by a PNG part: the
  reference returned is the PNG's.
\<close>

theorem generateImage_image_wins_witness:
  "\<not> includes_s ''gemini-2.5-flash-image'' ''imagen''
   \<and> generateContent imageClient ''gemini-2.5-flash-image'' ''a cat'' =
       partsResponse [\<lparr>text_p = Some ''Here is your cat'', inlineData = None\<rparr>, pngPart]
   \<and> hasInlineImage pngPart
   \<and> generateImage imageClient ''a cat'' ''gemini-2.5-flash-image'' =
       Inr ''data:image/png;base64,AAAA''"
proof -
  let ?ps = "[\<lparr>text_p = Some ''Here is your cat'', inlineData = None\<rparr>, pngPart]"
  let ?ct = "\<lparr>content_parts = Some ?ps\<rparr>"
  let ?c = "\<lparr>cand_content = Some ?ct\<rparr>"
  let ?response = "\<lparr>candidates = Some [?c]\<rparr>"
  have h1: "\<not> includes_s ''gemini-2.5-flash-image'' ''imagen''" by simp
  have h2: "generateContent imageClient ''gemini-2.5-flash-image'' ''a cat'' = Inr ?response"
    by (simp add: imageClient_def scriptedClient_def partsResponse_def)
  have h3: "candidates ?response = Some (?c # [])" by simp
  have h4: "cand_content ?c = Some ?ct" by simp
  have h5: "content_parts ?ct = Some ?ps" by simp
  have h6: "pngPart \<in> set ?ps" by simp
  have h7: "hasInlineImage pngPart" by (simp add: hasInlineImage_def pngPart_def)
  from generateImage_image_wins [OF h1 h2 h3 h4 h5 h6 h7]
  obtain q d where
    q: "find hasInlineImage ?ps = Some q" "inlineData q = Some d"
    and g: "generateImage imageClient ''a cat'' ''gemini-2.5-flash-image'' =
        Inr (''data:'' @ interpolate (mimeType d) @ '';base64,'' @ interpolate (data d))"
    by blast
  from q(1) have "q = pngPart" by (simp add: hasInlineImage_def pngPart_def)
  with q(2) have "d = \<lparr>mimeType = Some ''image/png'', data = Some ''AAAA''\<rparr>"
    by (simp add: pngPart_def)
  with g have "generateImage imageClient ''a cat'' ''gemini-2.5-flash-image'' =
      Inr ''data:image/png;base64,AAAA''"
    by (simp add: interpolate_def)
  with h1 h2 h7 show ?thesis by (simp add: partsResponse_def)
qed

text \<open>
  With the marker in the identifier and no bytes from the image endpoint, the named copy
  of the adapter has no \<^verbatim>\<open>throw\<close>: it goes on to the general path, and the outcome
  of the call is that path's. The second copy stops there with its fixed message.
\<close>

lemma generateImage_falls_through:
  assumes "includes_s modelName ''imagen''"
    and "generateImages cl modelName prompt = Inr imgResponse"
    and "\<not> truthy (firstImageBytes imgResponse)"
  shows "generateImage cl prompt modelName = generalPath cl prompt modelName"
  using assms by (cases "firstImageBytes imgResponse") (simp_all add: generateImage_def)

lemma generateImage_alt_stops:
  assumes "includes_s modelName ''imagen''"
    and "generateImages cl modelName prompt = Inr imgResponse"
    and "\<not> truthy (firstImageBytes imgResponse)"
  shows "generateImage_alt cl prompt modelName =
           Inl (Error ''Imagen model did not return image bytes.'')"
  using assms imagen_marker_lower [OF assms(1)]
  by (cases "firstImageBytes imgResponse")
     (simp_all add: generateImage_alt_def imagenNoBytesMessage_def)

text \<open>
  Claim C6 says that a call with an identifier containing \<^verbatim>\<open>imagen\<close> whose image
  endpoint returns no image bytes fails with a descriptive error naming the model. The
  named copy of the adapter does not: at the identifier \<^verbatim>\<open>imagen-3.0\<close> with an image
  endpoint that returns no image, it fails with \<^verbatim>\<open>No image data found in model
  response.\<close>, which names no model, when the content endpoint returns no candidate, and
  it succeeds with the content endpoint's image when that endpoint returns one. The second
  copy fails on both inputs with \<^verbatim>\<open>Imagen model did not return image bytes.\<close>
\<close>

theorem generateImage_imagen_no_bytes_goes_on:
  "includes_s ''imagen-3.0'' ''imagen''
   \<and> generateImages silentClient ''imagen-3.0'' ''a cat'' = noImages
   \<and> generateImage silentClient ''a cat'' ''imagen-3.0'' =
       Inl (Error ''No image data found in model response.'')
   \<and> \<not> includes_s (toLowerCase ''No image data found in model response.'') ''imagen''
   \<and> generateImages imageClient ''imagen-3.0'' ''a cat'' = noImages
   \<and> generateImage imageClient ''a cat'' ''imagen-3.0'' = Inr ''data:image/png;base64,AAAA''
   \<and> generateImage_alt silentClient ''a cat'' ''imagen-3.0'' =
       Inl (Error ''Imagen model did not return image bytes.'')
   \<and> generateImage_alt imageClient ''a cat'' ''imagen-3.0'' =
       Inl (Error ''Imagen model did not return image bytes.'')"
  by (simp add: generateImage_def generateImage_alt_def generalPath_def parseContentResponse_def
        silentClient_def imageClient_def scriptedClient_def noImages_def noCandidates_def
        partsResponse_def pngPart_def firstImageBytes_def noImageMessage_def
        imagenNoBytesMessage_def inlineReference_def interpolate_def toLowerCase_def
        toLowerChar_def)

text \<open>
  Claim C7. On the general path, when the parts of the first candidate are the single
  text part \<^verbatim>\<open>I cannot generate images\<close>, \<open>generateImage\<close> fails with the refusal
  error: its message contains the model identifier and proposes
  \<^verbatim>\<open>gemini-2.5-flash-image\<close> or an Imagen model instead.
\<close>

theorem generateImage_declined:
  assumes "\<not> includes_s modelName ''imagen''"
    and "generateContent cl modelName prompt = Inr response"
    and "candidates response = Some (c # cs)"
    and "cand_content c = Some ct"
    and "content_parts ct =
           Some [\<lparr>text_p = Some ''I cannot generate images'', inlineData = None\<rparr>]"
  shows "generateImage cl prompt modelName =
           Inl (Error (''This model ('' @ modelName @
             '') does not support image generation. Please select 'gemini-2.5-flash-image' or an Imagen model in Admin settings.''))
       \<and> includes_s (declinedMessage modelName) modelName
       \<and> includes_s (declinedMessage modelName) ''gemini-2.5-flash-image''
       \<and> generateImage cl prompt modelName = Inl (Error (declinedMessage modelName))"
proof -
  have e: "generateImage cl prompt modelName = Inl (Error (declinedMessage modelName))"
    using assms
    by (simp add: generateImage_def generalPath_def parseContentResponse_def textFallback_def
          refusal_text_lower)
  have m: "includes_s (declinedMessage modelName) modelName"
    unfolding declinedMessage_def by (rule includes_s_middle)
  have "includes_s
          '') does not support image generation. Please select 'gemini-2.5-flash-image' or an Imagen model in Admin settings.''
          ''gemini-2.5-flash-image''"
    by simp
  then have a: "includes_s (declinedMessage modelName) ''gemini-2.5-flash-image''"
    unfolding declinedMessage_def append_assoc [symmetric]
    by (rule includes_s_prepend)
  from e m a show ?thesis by (simp add: declinedMessage_def)
qed

theorem generateImage_declined_witness:
  "\<not> includes_s ''gemini-2.5-flash'' ''imagen''
   \<and> generateContent refusingClient ''gemini-2.5-flash'' ''a cat'' =
       partsResponse [\<lparr>text_p = Some ''I cannot generate images'', inlineData = None\<rparr>]
   \<and> generateImage refusingClient ''a cat'' ''gemini-2.5-flash'' =
       Inl (Error ''This model (gemini-2.5-flash) does not support image generation. Please select 'gemini-2.5-flash-image' or an Imagen model in Admin settings.'')"
proof -
  let ?ps = "[\<lparr>text_p = Some ''I cannot generate images'', inlineData = None\<rparr>]"
  let ?ct = "\<lparr>content_parts = Some ?ps\<rparr>"
  let ?c = "\<lparr>cand_content = Some ?ct\<rparr>"
  let ?response = "\<lparr>candidates = Some [?c]\<rparr>"
  have h1: "\<not> includes_s ''gemini-2.5-flash'' ''imagen''" by simp
  have h2: "generateContent refusingClient ''gemini-2.5-flash'' ''a cat'' = Inr ?response"
    by (simp add: refusingClient_def scriptedClient_def partsResponse_def)
  have h3: "candidates ?response = Some (?c # [])" by simp
  have h4: "cand_content ?c = Some ?ct" by simp
  have h5: "content_parts ?ct = Some ?ps" by simp
  from generateImage_declined [OF h1 h2 h3 h4 h5]
  have "generateImage refusingClient ''a cat'' ''gemini-2.5-flash'' =
      Inl (Error (''This model ('' @ ''gemini-2.5-flash'' @
        '') does not support image generation. Please select 'gemini-2.5-flash-image' or an Imagen model in Admin settings.''))"
    by blast
  with h1 h2 show ?thesis by (simp add: partsResponse_def)
qed

section \<open>chatStream: callbacks and the composed request\<close>

lemma forAwait_only_chunks:
  "\<exists>ts. map fst (calls (forAwait cbs cs s)) = map ChunkCall ts"
proof (induction cs arbitrary: s)
  case Nil
  show ?case by simp
next
  case (Cons c cs)
  show ?case
  proof (cases "chunk_text c")
    case None
    then show ?thesis using Cons.IH [of s] by simp
  next
    case (Some t)
    show ?thesis
    proof (cases "t = []")
      case True
      then show ?thesis using Some Cons.IH [of s] by simp
    next
      case False
      obtain r s' where step: "onChunk cbs t s = (r, s')" by (cases "onChunk cbs t s")
      show ?thesis
      proof (cases r)
        case None
        from Cons.IH [of s'] obtain ts where
          "map fst (calls (forAwait cbs cs s')) = map ChunkCall ts" by blast
        then have "map fst (calls (forAwait cbs (c # cs) s)) = map ChunkCall (t # ts)"
          using Some False step None by (simp add: Let_def)
        then show ?thesis by blast
      next
        case (Some e)
        have "map fst (calls (forAwait cbs (c # cs) s)) = map ChunkCall [t]"
          using \<open>chunk_text c = Some t\<close> False step Some by simp
        then show ?thesis by blast
      qed
    qed
  qed
qed

lemma consumeStream_shape:
  assumes "\<And>s. fst (onComplete cbs s) = None"
  shows "\<exists>ts. invoked (catchBlock cbs (consumeStream cbs answer s)) =
           map ChunkCall ts @
             [if (case answer of Inl e \<Rightarrow> False
                  | Inr result \<Rightarrow> failure result = None
                      \<and> thrown (forAwait cbs (fragments result) s) = None)
              then CompleteCall
              else ErrorCall (the (thrown (consumeStream cbs answer s)))]"
proof (cases answer)
  case (Inl e)
  have "invoked (catchBlock cbs (consumeStream cbs answer s)) = map ChunkCall [] @ [ErrorCall e]"
    using Inl by (simp add: consumeStream_def catchBlock_def invoked_def split_beta)
  then show ?thesis using Inl by (auto simp: consumeStream_def)
next
  case (Inr result)
  let ?f = "forAwait cbs (fragments result) s"
  obtain ts where ts: "map fst (calls ?f) = map ChunkCall ts"
    using forAwait_only_chunks [of cbs "fragments result" s] by blast
  show ?thesis
  proof (cases "thrown ?f")
    case (Some e)
    then have "invoked (catchBlock cbs (consumeStream cbs answer s)) =
        map ChunkCall ts @ [ErrorCall e]"
      using Inr ts by (simp add: consumeStream_def catchBlock_def invoked_def split_beta Let_def)
    then show ?thesis using Inr Some by (auto simp: consumeStream_def Let_def)
  next
    case None
    show ?thesis
    proof (cases "failure result")
      case (Some e)
      then have "invoked (catchBlock cbs (consumeStream cbs answer s)) =
          map ChunkCall ts @ [ErrorCall e]"
        using Inr ts None
        by (simp add: consumeStream_def catchBlock_def invoked_def split_beta Let_def)
      then show ?thesis using Inr None Some by (auto simp: consumeStream_def Let_def)
    next
      case noFailure: None
      have "invoked (catchBlock cbs (consumeStream cbs answer s)) =
          map ChunkCall ts @ [CompleteCall]"
        using Inr ts None noFailure assms [of "final ?f"]
        by (simp add: consumeStream_def catchBlock_def invoked_def split_beta Let_def)
      then show ?thesis using Inr None noFailure by auto
    qed
  qed
qed

lemma completeHandler_returns: "fst (completeHandler convId w) = None"
  by (simp add: completeHandler_def split: prod.splits sum.splits)

text \<open>
  Claim C1, as stated, fails: the call of \<^verbatim>\<open>onComplete\<close> stands inside the
  \<^verbatim>\<open>try\<close> block, so when the stream is exhausted without error and the completion
  callback itself throws, the \<^verbatim>\<open>catch\<close> block invokes \<^verbatim>\<open>onError\<close> as well:
  both terminal callbacks fire.
\<close>

theorem chatStream_both_terminal_counterexample:
  "streamSucceeds offline silentClient [helloMsg] ''gemini-2.5-flash'' throwingComplete None ()
   \<and> terminalCalls
        (chatStream offline silentClient [helloMsg] ''gemini-2.5-flash'' throwingComplete None ()) =
       [CompleteCall, ErrorCall (Error ''boom'')]"
  by (simp add: streamSucceeds_def terminalCalls_def invoked_def chatStream_def tryBlock_def
        catchBlock_def consumeStream_def composeRequest_def silentClient_def scriptedClient_def
        emptyStream_def throwingComplete_def)

text \<open>
  Claim C1, amended. For every invocation of \<open>chatStream\<close> whose completion callback
  returns normally, the callbacks invoked are some chunk callbacks followed by exactly one
  terminal callback: \<^verbatim>\<open>onComplete\<close> when the stream is exhausted without error,
  \<^verbatim>\<open>onError\<close> on any failure, whatever the number of chunk callbacks before it.
\<close>

theorem chatStream_one_terminal_callback:
  assumes "\<And>s. fst (onComplete cbs s) = None"
  shows "\<exists>ts. (streamSucceeds fetch cl msgs modelName cbs attachment s
               \<and> invoked (chatStream fetch cl msgs modelName cbs attachment s) =
                   map ChunkCall ts @ [CompleteCall])
            \<or> (\<not> streamSucceeds fetch cl msgs modelName cbs attachment s
               \<and> (\<exists>e. invoked (chatStream fetch cl msgs modelName cbs attachment s) =
                   map ChunkCall ts @ [ErrorCall e]))"
proof (cases "composeRequest fetch msgs attachment")
  case (Inl e)
  then have "invoked (chatStream fetch cl msgs modelName cbs attachment s) =
      map ChunkCall [] @ [ErrorCall e]"
    by (simp add: chatStream_def tryBlock_def catchBlock_def invoked_def split_beta)
  moreover have "\<not> streamSucceeds fetch cl msgs modelName cbs attachment s"
    using Inl by (simp add: streamSucceeds_def)
  ultimately show ?thesis by blast
next
  case (Inr req)
  obtain history msgContent where req: "req = (history, msgContent)" by (cases req)
  let ?answer = "sendMessageStream cl modelName history msgContent"
  have c: "chatStream fetch cl msgs modelName cbs attachment s =
             catchBlock cbs (consumeStream cbs ?answer s)"
    using Inr req by (simp add: chatStream_def tryBlock_def)
  have s: "streamSucceeds fetch cl msgs modelName cbs attachment s =
             (case ?answer of Inl e \<Rightarrow> False
              | Inr result \<Rightarrow> failure result = None
                  \<and> thrown (forAwait cbs (fragments result) s) = None)"
    using Inr req by (simp add: streamSucceeds_def)
  from consumeStream_shape [OF assms, of ?answer s] obtain ts where
    "invoked (catchBlock cbs (consumeStream cbs ?answer s)) =
       map ChunkCall ts @
         [if streamSucceeds fetch cl msgs modelName cbs attachment s then CompleteCall
          else ErrorCall (the (thrown (consumeStream cbs ?answer s)))]"
    unfolding s by blast
  then show ?thesis
    unfolding c by (cases "streamSucceeds fetch cl msgs modelName cbs attachment s") auto
qed

text \<open>
  The theorem at the callbacks of the send orchestrator, whose completion callback never
  throws into the adapter, on the reply \<^verbatim>\<open>Hi\<close>, \<^verbatim>\<open> there\<close>, \<^verbatim>\<open>!\<close>.
\<close>

theorem chatStream_one_terminal_callback_witness:
  "(\<forall>w. fst (onComplete (chatCallbacks ''local-1'' ''c1'') w) = None)
   \<and> streamSucceeds offline hiClient [helloMsg] ''gemini-2.5-flash''
        (chatCallbacks ''local-1'' ''c1'') None (exampleWorld CHAT)
   \<and> (\<exists>ts. invoked (chatStream offline hiClient [helloMsg] ''gemini-2.5-flash''
               (chatCallbacks ''local-1'' ''c1'') None (exampleWorld CHAT)) =
             map ChunkCall ts @ [CompleteCall])"
proof -
  have h: "\<And>w. fst (onComplete (chatCallbacks ''local-1'' ''c1'') w) = None"
    by (simp add: chatCallbacks_def completeHandler_returns)
  have ok: "streamSucceeds offline hiClient [helloMsg] ''gemini-2.5-flash''
        (chatCallbacks ''local-1'' ''c1'') None (exampleWorld CHAT)"
    by (simp add: streamSucceeds_def composeRequest_def hiClient_def scriptedClient_def
          hiStream_def chatCallbacks_def chunkHandler_def Let_def)
  from chatStream_one_terminal_callback [OF h, of offline hiClient "[helloMsg]"
      "''gemini-2.5-flash''" None "exampleWorld CHAT"] ok
  have "\<exists>ts. invoked (chatStream offline hiClient [helloMsg] ''gemini-2.5-flash''
               (chatCallbacks ''local-1'' ''c1'') None (exampleWorld CHAT)) =
             map ChunkCall ts @ [CompleteCall]"
    by blast
  with h ok show ?thesis by blast
qed

lemma composeRequest_snoc:
  "composeRequest fetch (H @ [T]) attachment =
     Inr (map (historyTurn fetch) H, messageContent fetch T attachment)"
  by (simp add: composeRequest_def)

text \<open>
  Claim C3. For a history \<open>H\<close> and a new turn \<open>T\<close>, the request \<open>chatStream\<close>
  hands to the provider has one turn per message of \<open>H\<close>, in the order of \<open>H\<close>:
  the \<open>i\<close>-th turn starts with the text of the \<open>i\<close>-th message and carries its mapped
  role, \<^verbatim>\<open>model\<close> for an assistant message and \<^verbatim>\<open>user\<close> for a user or system
  message.
\<close>

theorem chatStream_request_order_roles:
  "chatStream fetch cl (H @ [T]) modelName cbs attachment s =
     catchBlock cbs
       (consumeStream cbs
          (sendMessageStream cl modelName (map (historyTurn fetch) H)
             (messageContent fetch T attachment)) s)
   \<and> map turn_role (map (historyTurn fetch) H) = map (geminiRole \<circ> role) H
   \<and> map (take 1 \<circ> parts) (map (historyTurn fetch) H) = map (\<lambda>m. [textPart (content m)]) H
   \<and> geminiRole Assistant = ''model'' \<and> geminiRole User = ''user''
   \<and> geminiRole System = ''user''"
  by (simp add: chatStream_def tryBlock_def composeRequest_snoc historyTurn_def geminiRole_def)

text \<open>
  The theorem at a history of a user, an assistant and a system message: the roles sent
  are \<^verbatim>\<open>user\<close>, \<^verbatim>\<open>model\<close>, \<^verbatim>\<open>user\<close>, and the texts are in the history's order.
\<close>

theorem chatStream_request_order_roles_witness:
  "map turn_role (map (historyTurn offline) [helloMsg, answerMsg, noteMsg]) =
     [''user'', ''model'', ''user'']
   \<and> map (take 1 \<circ> parts) (map (historyTurn offline) [helloMsg, answerMsg, noteMsg]) =
     [[textPart ''Hello''], [textPart ''Hi, how can I help?''], [textPart ''Be brief.'']]"
proof -
  let ?H = "[helloMsg, answerMsg, noteMsg]"
  from chatStream_request_order_roles [of offline silentClient ?H questionMsg
      "''gemini-2.5-flash''" throwingComplete None "()"]
  have a: "map turn_role (map (historyTurn offline) ?H) = map (geminiRole \<circ> role) ?H"
    and b: "map (take 1 \<circ> parts) (map (historyTurn offline) ?H) =
        map (\<lambda>m. [textPart (content m)]) ?H"
    by blast+
  have a': "map (geminiRole \<circ> role) ?H = [''user'', ''model'', ''user'']"
    by (simp add: geminiRole_def helloMsg_def answerMsg_def noteMsg_def)
  have b': "map (\<lambda>m. [textPart (content m)]) ?H =
      [[textPart ''Hello''], [textPart ''Hi, how can I help?''], [textPart ''Be brief.'']]"
    by (simp add: helloMsg_def answerMsg_def noteMsg_def)
  from a a' b b' show ?thesis by (simp only:)
qed

text \<open>
  Claim C10. With an empty message list the read of the missing last message raises its
  \<open>TypeError\<close> inside the \<^verbatim>\<open>try\<close> block: the only callback invoked is
  \<^verbatim>\<open>onError\<close>, once, with that error; no chunk or completion callback is invoked;
  and nothing leaves \<open>chatStream\<close> but what \<^verbatim>\<open>onError\<close> itself throws, so the
  \<open>TypeError\<close> never escapes.
\<close>

theorem chatStream_empty_messages:
  "invoked (chatStream fetch cl [] modelName cbs attachment s) =
     [ErrorCall (TypeError ''Cannot read properties of undefined (reading 'content')'')]
   \<and> thrown (chatStream fetch cl [] modelName cbs attachment s) =
       fst (onError cbs (TypeError ''Cannot read properties of undefined (reading 'content')'') s)
   \<and> final (chatStream fetch cl [] modelName cbs attachment s) =
       snd (onError cbs (TypeError ''Cannot read properties of undefined (reading 'content')'') s)"
  by (simp add: chatStream_def tryBlock_def composeRequest_def catchBlock_def invoked_def
        split: prod.splits)

text \<open>
  The theorem at the callbacks of the send orchestrator: one error callback, nothing
  thrown.
\<close>

theorem chatStream_empty_messages_witness:
  "invoked (chatStream offline hiClient [] ''gemini-2.5-flash''
      (chatCallbacks ''local-1'' ''c1'') None (exampleWorld CHAT)) =
     [ErrorCall (TypeError ''Cannot read properties of undefined (reading 'content')'')]
   \<and> thrown (chatStream offline hiClient [] ''gemini-2.5-flash''
      (chatCallbacks ''local-1'' ''c1'') None (exampleWorld CHAT)) = None"
proof -
  let ?e = "TypeError ''Cannot read properties of undefined (reading 'content')''"
  from chatStream_empty_messages [of offline hiClient "''gemini-2.5-flash''"
      "chatCallbacks ''local-1'' ''c1''" None "exampleWorld CHAT"]
  have a: "invoked (chatStream offline hiClient [] ''gemini-2.5-flash''
      (chatCallbacks ''local-1'' ''c1'') None (exampleWorld CHAT)) = [ErrorCall ?e]"
    and b: "thrown (chatStream offline hiClient [] ''gemini-2.5-flash''
      (chatCallbacks ''local-1'' ''c1'') None (exampleWorld CHAT)) =
        fst (onError (chatCallbacks ''local-1'' ''c1'') ?e (exampleWorld CHAT))"
    by blast+
  have "fst (onError (chatCallbacks ''local-1'' ''c1'') ?e (exampleWorld CHAT)) = None"
    by (simp add: chatCallbacks_def errorHandler_def)
  with a b show ?thesis by (simp only:)
qed

section \<open>The send orchestrator: placeholders and persistence\<close>

lemma addMessage_ok:
  assumes "db_faults d (db_ops d) = None"
  shows "\<exists>row d'. addMessage msg d = (Inr row, d')
           \<and> db_messages d' = db_messages d @ [row]
           \<and> db_ops d' = db_ops d + 2
           \<and> db_faults d' = db_faults d
           \<and> db_uuid d' = db_uuid d
           \<and> role row = in_role msg \<and> content row = in_content msg
           \<and> conversation_id row = in_conversation_id msg
           \<and> image_url row = in_image_url msg
           \<and> attachments row = in_attachments msg
           \<and> msg_id row = db_uuid d (db_ops d)"
  using assms by (simp add: addMessage_def Let_def)

text \<open>
  Claim C9. The updater of the chunk callback, which puts the buffer into the
  placeholder, is idempotent: applied twice with the same buffer it gives the transcript
  it gives when applied once. It is the updater the chunk callback queues, and two of
  them applied in one render give what one gives.
\<close>

theorem replaceContent_idempotent:
  "replaceContent assistantMsgId buffer (replaceContent assistantMsgId buffer msgs) =
     replaceContent assistantMsgId buffer msgs
   \<and> pending (snd (chunkHandler assistantMsgId chunk w)) =
       pending (arrive w) @ [replaceContent assistantMsgId]
   \<and> applyPending buffer [replaceContent assistantMsgId, replaceContent assistantMsgId] msgs =
       applyPending buffer [replaceContent assistantMsgId] msgs"
  by (simp add: replaceContent_def chunkHandler_def setMessages_def applyPending_def Let_def)

theorem replaceContent_idempotent_witness:
  "replaceContent ''m2'' ''Hi there'' (replaceContent ''m2'' ''Hi there'' [helloMsg, answerMsg]) =
     replaceContent ''m2'' ''Hi there'' [helloMsg, answerMsg]
   \<and> replaceContent ''m2'' ''Hi there'' [helloMsg, answerMsg] =
     [helloMsg, answerMsg\<lparr>content := ''Hi there''\<rparr>]"
proof -
  from replaceContent_idempotent [of "''m2''" "''Hi there''" "[helloMsg, answerMsg]"]
  have a: "replaceContent ''m2'' ''Hi there''
        (replaceContent ''m2'' ''Hi there'' [helloMsg, answerMsg]) =
      replaceContent ''m2'' ''Hi there'' [helloMsg, answerMsg]"
    by blast
  have b: "replaceContent ''m2'' ''Hi there'' [helloMsg, answerMsg] =
      [helloMsg, answerMsg\<lparr>content := ''Hi there''\<rparr>]"
    by (simp add: replaceContent_def helloMsg_def answerMsg_def)
  from a b show ?thesis by blast
qed

text \<open>
  Claim C2, as stated, fails: the updater of the chunk callback reads the buffer when
  React applies it, so when the three fragments are delivered within one tick React
  renders once, after the third, and the placeholder is only ever shown with
  \<^verbatim>\<open>Hi there!\<close>.
\<close>

theorem chat_fragments_batched_counterexample:
  "observed (randomUUID (exampleEnv hiClient))
     (final (chatBranch (exampleEnv hiClient) hiClient ''c1'' ''gemini-2.5-flash'' questionMsg None
        [helloMsg, answerMsg] batchedWorld)) =
     [Some ''Hi there!'']"
  by (simp add: batchedWorld_def exampleWorld_def exampleStore_def exampleEnv_def hiClient_def
        scriptedClient_def hiStream_def chatBranch_def chatStream_def tryBlock_def
        composeRequest_def consumeStream_def catchBlock_def chatCallbacks_def chunkHandler_def
        completeHandler_def addMessage_def touchConversation_def loadMessages_def
        getMessages_def arrive_def render_def setMessages_def applyPending_def observed_def
        placeholderContent_def replaceContent_def Let_def)

text \<open>
  Claim C2, amended. When the reply arrives as the fragments \<^verbatim>\<open>Hi\<close>, \<^verbatim>\<open> there\<close>,
  \<^verbatim>\<open>!\<close>, no earlier update is waiting and the store accepts the write, every content
  React shows for the placeholder is the whole buffer accumulated so far, never a delta:
  \<^verbatim>\<open>Hi\<close> when React renders between the first and the second fragment,
  \<^verbatim>\<open>Hi there\<close> when it renders between the second and the third, and
  \<^verbatim>\<open>Hi there!\<close> after the third; fragments delivered within one tick are shown
  together. The completion callback follows the three chunk callbacks, and the store
  gains one assistant message of the conversation whose content is \<^verbatim>\<open>Hi there!\<close>.
\<close>

theorem chat_fragments_rendered:
  assumes stream: "\<And>h c. sendMessageStream adapter modelName h c =
            Inr \<lparr>fragments = [\<lparr>chunk_text = Some ''Hi''\<rparr>, \<lparr>chunk_text = Some '' there''\<rparr>,
                               \<lparr>chunk_text = Some ''!''\<rparr>],
                 failure = None\<rparr>"
    and ok: "db_faults (store w) (db_ops (store w)) = None"
    and idle: "pending w = []"
    and ticks: "rendersBetween w = beforeHi # afterHi # afterThere # later"
  shows "observed (randomUUID ev) (final
           (chatBranch ev adapter convId modelName userMsg attachmentPreview closureMessages w)) =
           observed (randomUUID ev) w
             @ (if afterHi then [Some ''Hi''] else [])
             @ (if afterThere then [Some ''Hi there''] else [])
             @ [Some ''Hi there!'']
       \<and> invoked (chatBranch ev adapter convId modelName userMsg attachmentPreview closureMessages w) =
           [ChunkCall ''Hi'', ChunkCall '' there'', ChunkCall ''!'', CompleteCall]
       \<and> (\<exists>saved. db_messages (store (final
             (chatBranch ev adapter convId modelName userMsg attachmentPreview closureMessages w))) =
             db_messages (store w) @ [saved]
           \<and> content saved = ''Hi there!'' \<and> role saved = Assistant
           \<and> conversation_id saved = convId)"
proof -
  obtain row d' where row:
    "addMessage \<lparr>in_conversation_id = convId, in_role = Assistant, in_content = ''Hi there!'',
                 in_image_url = None, in_attachments = None\<rparr> (store w) = (Inr row, d')"
    "db_messages d' = db_messages (store w) @ [row]" "content row = ''Hi there!''"
    "role row = Assistant" "conversation_id row = convId"
    using addMessage_ok [OF ok] by force
  have comp: "composeRequest (env_fetch ev) (closureMessages @ [userMsg]) attachmentPreview =
     Inr (map (historyTurn (env_fetch ev)) closureMessages,
          messageContent (env_fetch ev) userMsg attachmentPreview)"
    by (simp add: composeRequest_def)
  show ?thesis
    using row idle ticks
    by (cases afterHi; cases afterThere)
       (simp_all add: chatBranch_def chatStream_def tryBlock_def comp stream consumeStream_def
        catchBlock_def chatCallbacks_def chunkHandler_def completeHandler_def Let_def
        observed_def invoked_def placeholderContent_def replaceContent_def loadMessages_def
        getMessages_def arrive_def render_def setMessages_def applyPending_def
        split: prod.splits option.splits)
qed

text \<open>
  The theorem when React renders after each fragment: the contents shown are
  \<^verbatim>\<open>Hi\<close>, \<^verbatim>\<open>Hi there\<close>, \<^verbatim>\<open>Hi there!\<close>.
\<close>

theorem chat_fragments_rendered_witness:
  "(\<forall>h c. sendMessageStream hiClient ''gemini-2.5-flash'' h c = hiStream)
   \<and> db_faults (store (exampleWorld CHAT)) (db_ops (store (exampleWorld CHAT))) = None
   \<and> pending (exampleWorld CHAT) = []
   \<and> rendersBetween (exampleWorld CHAT) = [True, True, True]
   \<and> observed (randomUUID (exampleEnv hiClient)) (final
       (chatBranch (exampleEnv hiClient) hiClient ''c1'' ''gemini-2.5-flash'' questionMsg None
          [helloMsg, answerMsg] (exampleWorld CHAT))) =
       [Some ''Hi'', Some ''Hi there'', Some ''Hi there!'']
   \<and> map content (db_messages (store (final
       (chatBranch (exampleEnv hiClient) hiClient ''c1'' ''gemini-2.5-flash'' questionMsg None
          [helloMsg, answerMsg] (exampleWorld CHAT))))) = [''Hi there!'']"
proof -
  let ?r = "chatBranch (exampleEnv hiClient) hiClient ''c1'' ''gemini-2.5-flash'' questionMsg None
          [helloMsg, answerMsg] (exampleWorld CHAT)"
  have h1: "\<And>h c. sendMessageStream hiClient ''gemini-2.5-flash'' h c =
            Inr \<lparr>fragments = [\<lparr>chunk_text = Some ''Hi''\<rparr>, \<lparr>chunk_text = Some '' there''\<rparr>,
                               \<lparr>chunk_text = Some ''!''\<rparr>],
                 failure = None\<rparr>"
    by (simp add: hiClient_def scriptedClient_def hiStream_def)
  have h2: "db_faults (store (exampleWorld CHAT)) (db_ops (store (exampleWorld CHAT))) = None"
    by (simp add: exampleWorld_def exampleStore_def)
  have h3: "pending (exampleWorld CHAT) = []"
    by (simp add: exampleWorld_def)
  have h4: "rendersBetween (exampleWorld CHAT) = True # True # True # []"
    by (simp add: exampleWorld_def)
  have e: "db_messages (store (exampleWorld CHAT)) = []"
    by (simp add: exampleWorld_def exampleStore_def)
  have s0: "observed (randomUUID (exampleEnv hiClient)) (exampleWorld CHAT) = []"
    by (simp add: observed_def exampleWorld_def)
  from chat_fragments_rendered [OF h1 h2 h3 h4, of "exampleEnv hiClient" "''c1''" questionMsg None
      "[helloMsg, answerMsg]"]
  obtain saved where o: "observed (randomUUID (exampleEnv hiClient)) (final ?r) =
       observed (randomUUID (exampleEnv hiClient)) (exampleWorld CHAT)
         @ (if True then [Some ''Hi''] else [])
         @ (if True then [Some ''Hi there''] else [])
         @ [Some ''Hi there!'']"
    and s: "db_messages (store (final ?r)) = db_messages (store (exampleWorld CHAT)) @ [saved]"
      "content saved = ''Hi there!''"
    by blast
  from o s0 have o': "observed (randomUUID (exampleEnv hiClient)) (final ?r) =
       [Some ''Hi'', Some ''Hi there'', Some ''Hi there!'']"
    by simp
  from s e have p: "map content (db_messages (store (final ?r))) = [''Hi there!'']" by simp
  have "\<forall>h c. sendMessageStream hiClient ''gemini-2.5-flash'' h c = hiStream"
    using h1 by (simp add: hiStream_def)
  moreover from h4 have "rendersBetween (exampleWorld CHAT) = [True, True, True]" by simp
  ultimately show ?thesis using o' p h2 h3 by blast
qed

text \<open>
  Claim C5, as stated, fails in its second half: \<open>chatService\<close> has no operation that
  updates a message, and the image branch calls \<open>addMessage\<close> a second time. After a
  send in image mode that succeeds, the store holds the user's message, the placeholder
  with its text unchanged, and a second assistant record with the image.
\<close>

theorem image_second_record_counterexample:
  "persistedSummary (snd (handleSendMessage (exampleEnv imageClient) ''a cat'' ''p1'' None None
      (exampleWorld IMAGE))) =
     [(User, ''a cat'', None),
      (Assistant, ''Generating image...'', None),
      (Assistant, ''Here is your image for: '' @ [CHR 0x22] @ ''a cat'' @ [CHR 0x22],
         Some ''data:image/png;base64,AAAA'')]"
  by (simp add: persistedSummary_def handleSendMessage_def exampleWorld_def exampleStore_def
        exampleEnv_def exampleProvider_def ensureConversation_def addUserMessage_def
        uploadAttachment_def addMessage_def touchConversation_def dispatch_def orElse_def
        selectAdapter_def getGeminiAdapter_def GeminiAdapter_def imageBranch_def
        imageDispatch_def imageResolve_def generateImage_def generalPath_def
        parseContentResponse_def imageClient_def scriptedClient_def partsResponse_def
        pngPart_def inlineReference_def interpolate_def Let_def)

text \<open>The writes of the image branch only add rows to the store.\<close>

lemma addMessage_extends: "\<exists>rest. db_messages (snd (addMessage msg d)) = db_messages d @ rest"
  by (simp add: addMessage_def Let_def split: option.splits)

lemma loadMessages_rows: "db_messages (store (loadMessages cid w)) = db_messages (store w)"
  by (simp add: loadMessages_def getMessages_def split: option.splits)

lemma imageFailure_extends:
  "\<exists>rest. db_messages (store (snd (imageFailure convId err w))) = db_messages (store w) @ rest"
proof -
  let ?msg = "\<lparr>in_conversation_id = convId, in_role = Assistant,
              in_content = ''Failed to generate image. Error: '' @ message err,
              in_image_url = None, in_attachments = None\<rparr>"
  obtain r d where rd: "addMessage ?msg (store w) = (r, d)"
    by (cases "addMessage ?msg (store w)")
  from addMessage_extends [of ?msg "store w"] rd
  obtain rest where "db_messages d = db_messages (store w) @ rest" by auto
  then show ?thesis
    using rd by (cases r) (simp_all add: imageFailure_def loadMessages_rows)
qed

lemma imageResolve_extends:
  "\<exists>rest. db_messages (store (snd (imageResolve convId prompt p url w))) =
     db_messages (store w) @ rest"
proof -
  let ?msg = "\<lparr>in_conversation_id = convId, in_role = Assistant,
              in_content = ''Here is your image for: '' @ [CHR 0x22] @ prompt @ [CHR 0x22],
              in_image_url = Some url, in_attachments = None\<rparr>"
  obtain r d where rd: "addMessage ?msg (store w) = (r, d)"
    by (cases "addMessage ?msg (store w)")
  from addMessage_extends [of ?msg "store w"] rd
  obtain rest where "db_messages d = db_messages (store w) @ rest" by auto
  then show ?thesis
    using rd by (cases r) (simp_all add: imageResolve_def)
qed

lemma imageSettle_extends:
  "\<exists>rest. db_messages (store (snd (imageSettle convId prompt p answer w))) =
     db_messages (store w) @ rest"
proof (cases answer)
  case (Inl e)
  then show ?thesis using imageFailure_extends [of convId e w] by (simp add: imageSettle_def)
next
  case (Inr imageUrl)
  obtain r w2 where rs: "imageResolve convId prompt p imageUrl w = (r, w2)"
    by (cases "imageResolve convId prompt p imageUrl w")
  from imageResolve_extends [of convId prompt p imageUrl w] rs
  obtain rest where w2: "db_messages (store w2) = db_messages (store w) @ rest" by auto
  show ?thesis
  proof (cases r)
    case (Inl e)
    from imageFailure_extends [of convId e w2]
    obtain more where
      "db_messages (store (snd (imageFailure convId e w2))) = db_messages (store w2) @ more"
      by blast
    then show ?thesis
      using Inr rs Inl w2 by (simp add: imageSettle_def)
  next
    case img: (Inr imgMsg)
    then show ?thesis using Inr rs w2 by (simp add: imageSettle_def)
  qed
qed

text \<open>
  Claim C5, amended. In image mode the placeholder \<^verbatim>\<open>Generating image...\<close> is written
  to the store when the send is dispatched: the world in which the answer of the model is
  awaited and then handled already holds its row, so the row is in the store whatever the
  model answers, also when it fails. When the image resolves, a second assistant record
  carrying the image is appended to the store and the placeholder's record stays as it
  was; only in the local transcript does the new record take the placeholder's place.
  When the model fails, the record appended is the failure note.
\<close>

theorem image_placeholder_then_second_record:
  assumes first: "db_faults (store w) (db_ops (store w)) = None"
  shows "\<exists>placeholderMsg w1.
           imageDispatch convId w = (Inr placeholderMsg, w1)
         \<and> db_messages (store w1) = db_messages (store w) @ [placeholderMsg]
         \<and> messages w1 = messages w @ [placeholderMsg]
         \<and> content placeholderMsg = ''Generating image...''
         \<and> role placeholderMsg = Assistant
         \<and> conversation_id placeholderMsg = convId
         \<and> imageBranch adapter convId prompt modelName w =
             (case imageSettle convId prompt placeholderMsg
                     (generateImage adapter prompt modelName) w1 of
                (t, w') \<Rightarrow> (t, w'\<lparr>isLoading := False\<rparr>))
         \<and> (\<exists>rest. db_messages (store (snd (imageBranch adapter convId prompt modelName w))) =
               db_messages (store w) @ placeholderMsg # rest)
         \<and> (\<forall>imageUrl.
               generateImage adapter prompt modelName = Inr imageUrl
               \<and> db_faults (store w) (db_ops (store w) + 2) = None \<longrightarrow>
               (\<exists>imgMsg w2.
                  imageBranch adapter convId prompt modelName w = (None, w2)
                \<and> db_messages (store w2) = db_messages (store w) @ [placeholderMsg, imgMsg]
                \<and> role imgMsg = Assistant \<and> image_url imgMsg = Some imageUrl
                \<and> conversation_id imgMsg = convId
                \<and> messages w2 =
                    map (\<lambda>m. if msg_id m = msg_id placeholderMsg then imgMsg else m)
                      (messages w @ [placeholderMsg])))
         \<and> (\<forall>e.
               generateImage adapter prompt modelName = Inl e
               \<and> db_faults (store w) (db_ops (store w) + 2) = None \<longrightarrow>
               (\<exists>failMsg.
                  db_messages (store (snd (imageBranch adapter convId prompt modelName w))) =
                    db_messages (store w) @ [placeholderMsg, failMsg]
                \<and> role failMsg = Assistant
                \<and> content failMsg = ''Failed to generate image. Error: '' @ message e))"
proof -
  let ?in1 = "\<lparr>in_conversation_id = convId, in_role = Assistant,
              in_content = ''Generating image...'',
              in_image_url = None, in_attachments = None\<rparr>"
  obtain p d1 where p: "addMessage ?in1 (store w) = (Inr p, d1)"
    "db_messages d1 = db_messages (store w) @ [p]" "db_ops d1 = db_ops (store w) + 2"
    "db_faults d1 = db_faults (store w)"
    "content p = ''Generating image...''" "role p = Assistant" "conversation_id p = convId"
    using addMessage_ok [OF first, of ?in1] by force
  let ?w1 = "w\<lparr>store := d1, messages := messages w @ [p]\<rparr>"
  let ?answer = "generateImage adapter prompt modelName"
  have disp: "imageDispatch convId w = (Inr p, ?w1)"
    using p(1) by (simp add: imageDispatch_def)
  have br: "imageBranch adapter convId prompt modelName w =
      (case imageSettle convId prompt p ?answer ?w1 of (t, w') \<Rightarrow> (t, w'\<lparr>isLoading := False\<rparr>))"
    by (simp add: imageBranch_def disp imageSettle_def split: sum.splits)
  from imageSettle_extends [of convId prompt p ?answer ?w1] obtain rest where
    "db_messages (store (snd (imageSettle convId prompt p ?answer ?w1))) =
       db_messages (store ?w1) @ rest"
    by blast
  then have kept: "db_messages (store (snd (imageBranch adapter convId prompt modelName w))) =
      db_messages (store w) @ p # rest"
    using p(2) by (simp add: br split_beta)
  have success: "\<exists>imgMsg w2.
        imageBranch adapter convId prompt modelName w = (None, w2)
      \<and> db_messages (store w2) = db_messages (store w) @ [p, imgMsg]
      \<and> role imgMsg = Assistant \<and> image_url imgMsg = Some imageUrl
      \<and> conversation_id imgMsg = convId
      \<and> messages w2 = map (\<lambda>m. if msg_id m = msg_id p then imgMsg else m) (messages w @ [p])"
    if image: "?answer = Inr imageUrl"
      and second: "db_faults (store w) (db_ops (store w) + 2) = None"
    for imageUrl
  proof -
    let ?in2 = "\<lparr>in_conversation_id = convId, in_role = Assistant,
              in_content = ''Here is your image for: '' @ [CHR 0x22] @ prompt @ [CHR 0x22],
              in_image_url = Some imageUrl, in_attachments = None\<rparr>"
    from second p(3,4) have "db_faults d1 (db_ops d1) = None" by simp
    then obtain i d2 where i: "addMessage ?in2 d1 = (Inr i, d2)"
      "db_messages d2 = db_messages d1 @ [i]"
      "role i = Assistant" "image_url i = Some imageUrl" "conversation_id i = convId"
      using addMessage_ok [of d1 ?in2] by force
    have "imageBranch adapter convId prompt modelName w =
      (None, w\<lparr>store := d2,
               messages := map (\<lambda>m. if msg_id m = msg_id p then i else m) (messages w @ [p]),
               isLoading := False\<rparr>)"
      using i(1) by (simp add: br image imageSettle_def imageResolve_def)
    then show ?thesis using p(2) i by simp
  qed
  have failure: "\<exists>failMsg.
        db_messages (store (snd (imageBranch adapter convId prompt modelName w))) =
          db_messages (store w) @ [p, failMsg]
      \<and> role failMsg = Assistant
      \<and> content failMsg = ''Failed to generate image. Error: '' @ message e"
    if failed: "?answer = Inl e"
      and second: "db_faults (store w) (db_ops (store w) + 2) = None"
    for e
  proof -
    let ?in2 = "\<lparr>in_conversation_id = convId, in_role = Assistant,
              in_content = ''Failed to generate image. Error: '' @ message e,
              in_image_url = None, in_attachments = None\<rparr>"
    from second p(3,4) have "db_faults d1 (db_ops d1) = None" by simp
    then obtain f d2 where f: "addMessage ?in2 d1 = (Inr f, d2)"
      "db_messages d2 = db_messages d1 @ [f]"
      "role f = Assistant" "content f = ''Failed to generate image. Error: '' @ message e"
      using addMessage_ok [of d1 ?in2] by force
    have "db_messages (store (snd (imageBranch adapter convId prompt modelName w))) =
        db_messages d2"
      using f(1) by (simp add: br failed imageSettle_def imageFailure_def loadMessages_rows)
    then show ?thesis using p(2) f by simp
  qed
  show ?thesis
    using disp p br kept success failure by auto
qed

text \<open>
  The theorem at a send in image mode, once with a model that returns an image and once
  with a model that refuses: the placeholder's row is in the store both times.
\<close>

theorem image_placeholder_then_second_record_witness:
  "db_faults (store (exampleWorld IMAGE)) (db_ops (store (exampleWorld IMAGE))) = None
   \<and> db_faults (store (exampleWorld IMAGE)) (db_ops (store (exampleWorld IMAGE)) + 2) = None
   \<and> generateImage imageClient ''a cat'' ''gemini-2.5-flash-image'' =
       Inr ''data:image/png;base64,AAAA''
   \<and> (\<exists>placeholderMsg imgMsg w2.
         imageBranch imageClient ''c1'' ''a cat'' ''gemini-2.5-flash-image'' (exampleWorld IMAGE) =
           (None, w2)
       \<and> db_messages (store w2) = [placeholderMsg, imgMsg]
       \<and> content placeholderMsg = ''Generating image...''
       \<and> image_url imgMsg = Some ''data:image/png;base64,AAAA'')
   \<and> generateImage refusingClient ''a cat'' ''gemini-2.5-flash-image'' =
       Inl (Error (declinedMessage ''gemini-2.5-flash-image''))
   \<and> (\<exists>placeholderMsg failMsg.
         db_messages (store (snd (imageBranch refusingClient ''c1'' ''a cat''
           ''gemini-2.5-flash-image'' (exampleWorld IMAGE)))) = [placeholderMsg, failMsg]
       \<and> content placeholderMsg = ''Generating image...''
       \<and> content failMsg =
           ''Failed to generate image. Error: '' @ declinedMessage ''gemini-2.5-flash-image'')"
proof -
  have h1: "db_faults (store (exampleWorld IMAGE)) (db_ops (store (exampleWorld IMAGE))) = None"
    by (simp add: exampleWorld_def exampleStore_def)
  have h2: "db_faults (store (exampleWorld IMAGE)) (db_ops (store (exampleWorld IMAGE)) + 2) = None"
    by (simp add: exampleWorld_def exampleStore_def)
  have h3: "generateImage imageClient ''a cat'' ''gemini-2.5-flash-image'' =
       Inr ''data:image/png;base64,AAAA''"
    by (simp add: generateImage_def generalPath_def parseContentResponse_def imageClient_def
          scriptedClient_def partsResponse_def pngPart_def inlineReference_def interpolate_def)
  have h4: "generateImage refusingClient ''a cat'' ''gemini-2.5-flash-image'' =
       Inl (Error (declinedMessage ''gemini-2.5-flash-image''))"
    by (simp add: generateImage_def generalPath_def parseContentResponse_def refusingClient_def
          scriptedClient_def partsResponse_def textFallback_def refusal_text_lower)
  have e: "db_messages (store (exampleWorld IMAGE)) = []"
    by (simp add: exampleWorld_def exampleStore_def)
  from image_placeholder_then_second_record [OF h1, of "''c1''" imageClient "''a cat''"
      "''gemini-2.5-flash-image''"] h2 h3 e
  have a: "\<exists>placeholderMsg imgMsg w2.
         imageBranch imageClient ''c1'' ''a cat'' ''gemini-2.5-flash-image'' (exampleWorld IMAGE) =
           (None, w2)
       \<and> db_messages (store w2) = [placeholderMsg, imgMsg]
       \<and> content placeholderMsg = ''Generating image...''
       \<and> image_url imgMsg = Some ''data:image/png;base64,AAAA''"
    by auto
  from image_placeholder_then_second_record [OF h1, of "''c1''" refusingClient "''a cat''"
      "''gemini-2.5-flash-image''"] h2 h4 e
  have b: "\<exists>placeholderMsg failMsg.
         db_messages (store (snd (imageBranch refusingClient ''c1'' ''a cat''
           ''gemini-2.5-flash-image'' (exampleWorld IMAGE)))) = [placeholderMsg, failMsg]
       \<and> content placeholderMsg = ''Generating image...''
       \<and> content failMsg =
           ''Failed to generate image. Error: '' @ declinedMessage ''gemini-2.5-flash-image''"
    by auto
  from h1 h2 h3 h4 a b show ?thesis by blast
qed

section \<open>What is persisted stays persisted\<close>

lemma addMessage_keeps:
  "m \<in> set (db_messages d) \<Longrightarrow> m \<in> set (db_messages (snd (addMessage msg d)))"
  by (simp add: addMessage_def Let_def split: option.splits)

lemma getMessages_keeps: "db_messages (snd (getMessages cid d)) = db_messages d"
  by (simp add: getMessages_def split: option.splits)

lemma loadMessages_keeps: "persisted m w \<Longrightarrow> persisted m (loadMessages cid w)"
  using getMessages_keeps [of cid "store w"]
  by (auto simp: persisted_def loadMessages_def split: prod.splits sum.splits)

lemma imageFailure_keeps:
  assumes "persisted m w"
  shows "persisted m (snd (imageFailure convId err w))"
proof -
  let ?msg = "\<lparr>in_conversation_id = convId, in_role = Assistant,
              in_content = ''Failed to generate image. Error: '' @ message err,
              in_image_url = None, in_attachments = None\<rparr>"
  obtain r d where rd: "addMessage ?msg (store w) = (r, d)"
    by (cases "addMessage ?msg (store w)")
  from assms have "m \<in> set (db_messages d)"
    using addMessage_keeps [of m "store w" ?msg] rd by (simp add: persisted_def)
  then have "persisted m (w\<lparr>store := d\<rparr>)" by (simp add: persisted_def)
  then show ?thesis
    using rd loadMessages_keeps [of m "w\<lparr>store := d\<rparr>" convId]
    by (cases r) (simp_all add: imageFailure_def)
qed

lemma imageDispatch_keeps:
  assumes "persisted m w"
  shows "persisted m (snd (imageDispatch convId w))"
proof -
  let ?msg = "\<lparr>in_conversation_id = convId, in_role = Assistant,
              in_content = ''Generating image...'',
              in_image_url = None, in_attachments = None\<rparr>"
  obtain r d where rd: "addMessage ?msg (store w) = (r, d)"
    by (cases "addMessage ?msg (store w)")
  from assms have "m \<in> set (db_messages d)"
    using addMessage_keeps [of m "store w" ?msg] rd by (simp add: persisted_def)
  then show ?thesis using rd by (cases r) (simp_all add: imageDispatch_def persisted_def)
qed

lemma imageResolve_keeps:
  assumes "persisted m w"
  shows "persisted m (snd (imageResolve convId prompt p url w))"
proof -
  let ?msg = "\<lparr>in_conversation_id = convId, in_role = Assistant,
              in_content = ''Here is your image for: '' @ [CHR 0x22] @ prompt @ [CHR 0x22],
              in_image_url = Some url, in_attachments = None\<rparr>"
  obtain r d where rd: "addMessage ?msg (store w) = (r, d)"
    by (cases "addMessage ?msg (store w)")
  from assms have "m \<in> set (db_messages d)"
    using addMessage_keeps [of m "store w" ?msg] rd by (simp add: persisted_def)
  then show ?thesis using rd by (cases r) (simp_all add: imageResolve_def persisted_def)
qed

lemma imageBranch_keeps:
  assumes "persisted m w"
  shows "persisted m (snd (imageBranch adapter convId prompt modelName w))"
proof -
  have flag: "\<And>x. persisted m x \<Longrightarrow> persisted m (x\<lparr>isLoading := False\<rparr>)"
    by (simp add: persisted_def)
  obtain r1 w1 where d: "imageDispatch convId w = (r1, w1)" by (cases "imageDispatch convId w")
  have p1: "persisted m w1" using imageDispatch_keeps [OF assms, of convId] d by simp
  show ?thesis
  proof (cases r1)
    case (Inl e)
    then show ?thesis
      using d imageFailure_keeps [OF p1, of convId e]
      by (simp add: imageBranch_def flag split_beta)
  next
    case (Inr placeholderMsg)
    show ?thesis
    proof (cases "generateImage adapter prompt modelName")
      case (Inl e)
      then show ?thesis
        using d Inr imageFailure_keeps [OF p1, of convId e]
        by (simp add: imageBranch_def flag split_beta)
    next
      case url: (Inr imageUrl)
      obtain r2 w2 where rs: "imageResolve convId prompt placeholderMsg imageUrl w1 = (r2, w2)"
        by (cases "imageResolve convId prompt placeholderMsg imageUrl w1")
      have p2: "persisted m w2"
        using imageResolve_keeps [OF p1, of convId prompt placeholderMsg imageUrl] rs by simp
      show ?thesis
      proof (cases r2)
        case (Inl e)
        then show ?thesis
          using d Inr url rs imageFailure_keeps [OF p2, of convId e]
          by (simp add: imageBranch_def flag split_beta)
      next
        case img: (Inr imgMsg)
        then show ?thesis
          using d Inr url rs p2 by (simp add: imageBranch_def flag)
      qed
    qed
  qed
qed

lemma forAwait_invariant:
  assumes "\<And>t s. P s \<Longrightarrow> P (snd (onChunk cbs t s))"
  shows "P s \<Longrightarrow> P (final (forAwait cbs cs s))"
proof (induction cs arbitrary: s)
  case Nil
  then show ?case by simp
next
  case (Cons c cs)
  show ?case
  proof (cases "chunk_text c")
    case None
    then show ?thesis using Cons by simp
  next
    case (Some t)
    show ?thesis
    proof (cases "t = []")
      case True
      then show ?thesis using Some Cons by simp
    next
      case False
      obtain r s' where step: "onChunk cbs t s = (r, s')" by (cases "onChunk cbs t s")
      have "P s'" using assms [OF Cons.prems, of t] step by simp
      then show ?thesis
        using Some False step Cons.IH [of s'] by (cases r) (simp_all add: Let_def)
    qed
  qed
qed

lemma consumeStream_invariant:
  assumes "\<And>t s. P s \<Longrightarrow> P (snd (onChunk cbs t s))"
    and "\<And>s. P s \<Longrightarrow> P (snd (onComplete cbs s))"
    and "P s"
  shows "P (final (consumeStream cbs answer s))"
proof (cases answer)
  case (Inl e)
  then show ?thesis using assms(3) by (simp add: consumeStream_def)
next
  case (Inr result)
  have "P (final (forAwait cbs (fragments result) s))"
    using forAwait_invariant [of P cbs s] assms(1,3) by blast
  then show ?thesis
    using Inr assms(2) [of "final (forAwait cbs (fragments result) s)"]
    by (auto simp: consumeStream_def Let_def split: option.splits prod.splits)
qed

lemma chatStream_invariant:
  assumes "\<And>t s. P s \<Longrightarrow> P (snd (onChunk cbs t s))"
    and "\<And>s. P s \<Longrightarrow> P (snd (onComplete cbs s))"
    and "\<And>e s. P s \<Longrightarrow> P (snd (onError cbs e s))"
    and "P s"
  shows "P (final (chatStream fetch cl msgs modelName cbs attachment s))"
proof -
  let ?r = "tryBlock fetch cl msgs modelName cbs attachment s"
  have t: "P (final ?r)"
  proof (cases "composeRequest fetch msgs attachment")
    case (Inl e)
    then show ?thesis using assms(4) by (simp add: tryBlock_def)
  next
    case (Inr req)
    then show ?thesis
      using consumeStream_invariant [of P cbs s, OF assms(1,2,4)]
      by (cases req) (simp add: tryBlock_def)
  qed
  show ?thesis
  proof (cases "thrown ?r")
    case None
    then show ?thesis using t by (simp add: chatStream_def catchBlock_def)
  next
    case (Some e)
    then show ?thesis
      using assms(3) [OF t, of e] by (simp add: chatStream_def catchBlock_def split_beta)
  qed
qed

lemma render_store: "store (render w) = store w"
  by (simp add: render_def Let_def)

lemma arrive_store: "store (arrive w) = store w"
  by (simp add: arrive_def render_store split: list.splits)

lemma chunkHandler_keeps: "persisted m w \<Longrightarrow> persisted m (snd (chunkHandler aid t w))"
  by (simp add: chunkHandler_def persisted_def Let_def setMessages_def arrive_store)

lemma errorHandler_keeps: "persisted m w \<Longrightarrow> persisted m (snd (errorHandler aid e w))"
  by (simp add: errorHandler_def persisted_def setMessages_def render_store arrive_store)

lemma completeHandler_keeps:
  assumes "persisted m w"
  shows "persisted m (snd (completeHandler convId w))"
proof -
  let ?msg = "\<lparr>in_conversation_id = convId, in_role = Assistant,
              in_content = streamContent w,
              in_image_url = None, in_attachments = None\<rparr>"
  obtain r d where rd: "addMessage ?msg (store w) = (r, d)"
    by (cases "addMessage ?msg (store w)")
  from assms have "m \<in> set (db_messages d)"
    using addMessage_keeps [of m "store w" ?msg] rd by (simp add: persisted_def)
  then have kept: "persisted m (render (w\<lparr>store := d\<rparr>))"
    by (simp add: persisted_def render_store)
  then have "persisted m (loadMessages convId (render (w\<lparr>store := d\<rparr>)))"
    by (rule loadMessages_keeps)
  then have "persisted m ((loadMessages convId (render (w\<lparr>store := d\<rparr>)))\<lparr>isLoading := False\<rparr>)"
    by (simp add: persisted_def)
  then show ?thesis
    using rd kept by (cases r) (simp_all add: completeHandler_def)
qed

lemma chatBranch_keeps:
  assumes "persisted m w"
  shows "persisted m (final (chatBranch ev adapter convId modelName userMsg preview closure w))"
proof -
  have init: "\<And>x. persisted m (w\<lparr>streamContent := [], messages := x\<rparr>)"
    using assms by (simp add: persisted_def)
  show ?thesis
    unfolding chatBranch_def Let_def
    by (rule chatStream_invariant [where P = "persisted m"])
       (simp_all add: chatCallbacks_def chunkHandler_keeps completeHandler_keeps
          errorHandler_keeps init)
qed

lemma dispatch_keeps:
  assumes "persisted m w"
  shows "persisted m (snd (dispatch ev prov convId prompt userMsg preview closure w))"
  using imageBranch_keeps [OF assms] chatBranch_keeps [OF assms]
  by (simp add: dispatch_def Let_def)

text \<open>
  Claim C8. When a file is attached, its upload fails and the send has a conversation,
  the send goes on with the local preview in the place of the public URL: provided the
  store accepts the write, the user's message is persisted with the preview as its one
  attachment reference (with none when no preview was passed), the handler continues
  with the dispatch to the model, and the message is still in the store when the handler
  has finished.
\<close>

theorem upload_failure_falls_back:
  assumes user: "session_user w = Some userId"
    and prov: "find (\<lambda>p. prov_id p = providerId) (providers w) = Some selectedProvider"
    and conv: "ensureConversation userId prompt w = (Inr convId, w1)"
    and up: "storage_upload ev (userId @ ''/'' @ random ev @ ''.'' @ fileExt (file_name f)) =
               Inl uploadError"
    and ok: "db_faults (store w1) (db_ops (store w1)) = None"
  shows "\<exists>userMsg w2.
           uploadAttachment ev userId (Some f) attachmentPreview = attachmentPreview
         \<and> addUserMessage convId prompt attachmentPreview w1 = (Inr userMsg, w2)
         \<and> role userMsg = User \<and> content userMsg = prompt
         \<and> conversation_id userMsg = convId
         \<and> attachments userMsg =
             (case attachmentPreview of
                None \<Rightarrow> None
              | Some preview \<Rightarrow> if preview = [] then None else Some [preview])
         \<and> db_messages (store w2) = db_messages (store w1) @ [userMsg]
         \<and> handleSendMessage ev prompt providerId (Some f) attachmentPreview w =
             dispatch ev selectedProvider convId prompt userMsg attachmentPreview (messages w) w2
         \<and> persisted userMsg
             (snd (handleSendMessage ev prompt providerId (Some f) attachmentPreview w))"
proof -
  let ?refs = "case attachmentPreview of
                 None \<Rightarrow> None
               | Some preview \<Rightarrow> if preview = [] then None else Some [preview]"
  let ?msg = "\<lparr>in_conversation_id = convId, in_role = User, in_content = prompt,
              in_image_url = None, in_attachments = ?refs\<rparr>"
  have u: "uploadAttachment ev userId (Some f) attachmentPreview = attachmentPreview"
    using up by (simp add: uploadAttachment_def)
  obtain row d where row: "addMessage ?msg (store w1) = (Inr row, d)"
    "db_messages d = db_messages (store w1) @ [row]"
    "role row = User" "content row = prompt" "conversation_id row = convId"
    "attachments row = ?refs"
    using addMessage_ok [OF ok, of ?msg] by force
  let ?w2 = "w1\<lparr>store := d, messages := messages w1 @ [row], isLoading := True\<rparr>"
  have a: "addUserMessage convId prompt attachmentPreview w1 = (Inr row, ?w2)"
    using row(1) by (simp add: addUserMessage_def)
  have h: "handleSendMessage ev prompt providerId (Some f) attachmentPreview w =
             dispatch ev selectedProvider convId prompt row attachmentPreview (messages w) ?w2"
    using user prov conv u a by (simp add: handleSendMessage_def)
  have "persisted row ?w2" using row(2) by (simp add: persisted_def)
  then have "persisted row
      (snd (dispatch ev selectedProvider convId prompt row attachmentPreview (messages w) ?w2))"
    by (rule dispatch_keeps)
  then show ?thesis
    using u a h row by simp
qed

text \<open>
  The theorem at a send of \<^verbatim>\<open>cat.png\<close> in chat mode while the storage bucket is
  missing: the persisted user message refers to the data URL of the preview.
\<close>

theorem upload_failure_falls_back_witness:
  "session_user (exampleWorld CHAT) = Some ''alice''
   \<and> find (\<lambda>p. prov_id p = ''p1'') (providers (exampleWorld CHAT)) = Some (exampleProvider CHAT)
   \<and> ensureConversation ''alice'' ''look'' (exampleWorld CHAT) = (Inr ''c1'', exampleWorld CHAT)
   \<and> storage_upload (exampleEnv hiClient)
        (''alice'' @ ''/'' @ random (exampleEnv hiClient) @ ''.'' @ fileExt (file_name catFile)) =
       Inl (Error ''Bucket not found'')
   \<and> db_faults (store (exampleWorld CHAT)) (db_ops (store (exampleWorld CHAT))) = None
   \<and> (\<exists>userMsg.
         attachments userMsg = Some [''data:image/png;base64,AAAA''] \<and> role userMsg = User
       \<and> content userMsg = ''look''
       \<and> persisted userMsg
           (snd (handleSendMessage (exampleEnv hiClient) ''look'' ''p1'' (Some catFile)
              (Some catPreview) (exampleWorld CHAT))))"
proof -
  have h1: "session_user (exampleWorld CHAT) = Some ''alice''"
    by (simp add: exampleWorld_def)
  have h2: "find (\<lambda>p. prov_id p = ''p1'') (providers (exampleWorld CHAT)) =
      Some (exampleProvider CHAT)"
    by (simp add: exampleWorld_def exampleProvider_def)
  have h3: "ensureConversation ''alice'' ''look'' (exampleWorld CHAT) =
      (Inr ''c1'', exampleWorld CHAT)"
    by (simp add: ensureConversation_def exampleWorld_def Let_def)
  have h4: "storage_upload (exampleEnv hiClient)
        (''alice'' @ ''/'' @ random (exampleEnv hiClient) @ ''.'' @ fileExt (file_name catFile)) =
       Inl (Error ''Bucket not found'')"
    by (simp add: exampleEnv_def storageDown_def)
  have h5: "db_faults (store (exampleWorld CHAT)) (db_ops (store (exampleWorld CHAT))) = None"
    by (simp add: exampleWorld_def exampleStore_def)
  from upload_failure_falls_back [OF h1 h2 h3 h4 h5, of "Some catPreview"]
  obtain userMsg where m:
    "attachments userMsg =
       (case Some catPreview of
          None \<Rightarrow> None
        | Some preview \<Rightarrow> if preview = [] then None else Some [preview])"
    "role userMsg = User" "content userMsg = ''look''"
    "persisted userMsg
       (snd (handleSendMessage (exampleEnv hiClient) ''look'' ''p1'' (Some catFile)
          (Some catPreview) (exampleWorld CHAT)))"
    by blast
  from m(1) have "attachments userMsg = Some [''data:image/png;base64,AAAA'']"
    by (simp add: catPreview_def)
  with m(2-4) have "\<exists>userMsg.
         attachments userMsg = Some [''data:image/png;base64,AAAA''] \<and> role userMsg = User
       \<and> content userMsg = ''look''
       \<and> persisted userMsg
           (snd (handleSendMessage (exampleEnv hiClient) ''look'' ''p1'' (Some catFile)
              (Some catPreview) (exampleWorld CHAT)))"
    by blast
  with h1 h2 h3 h4 h5 show ?thesis by blast
qed

end
